theory Spec2Isabelle
  imports Complex_Main "HOL-Library.Log_Nat" "HOL-Library.Sublist"
begin

section \<open>JavaScript numbers\<close>

text \<open>
  A JavaScript number is an IEEE binary64 value. A finite one is an exact rational, so the
  model carries it as \<open>Num q\<close>; the two zeros are not told apart (no operation below
  divides by a zero). Arithmetic rounds its exact result to the nearest binary64 value,
  ties to even, and overflows to an infinity: \<open>fl64\<close>.
\<close>

datatype jsnum = NaN | NInf | Num rat | PInf

definition pow2 :: "int \<Rightarrow> rat" where
  "pow2 e = (if 0 \<le> e then 2 ^ nat e else 1 / 2 ^ nat (- e))"

definition floor_log2 :: "rat \<Rightarrow> int" where
  "floor_log2 q =
     (let d = bitlen (fst (quotient_of q)) - bitlen (snd (quotient_of q))
      in if pow2 d \<le> q then d else d - 1)"

definition round_half_even :: "rat \<Rightarrow> int" where
  "round_half_even x =
     (let f = \<lfloor>x\<rfloor>; d = x - of_int f
      in if d < 1 / 2 then f
         else if 1 / 2 < d then f + 1
         else if even f then f else f + 1)"

text \<open>
  For \<open>q > 0\<close>: \<open>e\<close> is the exponent of the last place of the significand (53 bits,
  or fewer for a subnormal), \<open>m\<close> the significand as an integer. The result overflows
  when \<open>m * 2^e\<close> reaches \<open>2^1024\<close>, that is when \<open>m\<close> has more than \<open>1024 - e\<close> bits.
\<close>

definition fl64_pos :: "rat \<Rightarrow> jsnum" where
  "fl64_pos q =
     (let e = max (floor_log2 q) (- 1022) - 52;
          m = round_half_even (q / pow2 e)
      in if 1024 < e + bitlen m then PInf else Num (of_int m * pow2 e))"

definition fl64 :: "rat \<Rightarrow> jsnum" where
  "fl64 q =
     (if q = 0 then Num 0
      else if 0 < q then fl64_pos q
      else (case fl64_pos (- q) of Num r \<Rightarrow> Num (- r) | _ \<Rightarrow> NInf))"

text \<open>\<open>isNaN\<close>, the comparison \<open>>=\<close> (false as soon as one side is NaN) and \<open>/\<close>.\<close>

fun isNaN :: "jsnum \<Rightarrow> bool" where
  "isNaN NaN = True"
| "isNaN _ = False"

fun js_ge :: "jsnum \<Rightarrow> jsnum \<Rightarrow> bool" where
  "js_ge NaN _ = False"
| "js_ge _ NaN = False"
| "js_ge PInf _ = True"
| "js_ge _ NInf = True"
| "js_ge NInf _ = False"
| "js_ge _ PInf = False"
| "js_ge (Num a) (Num b) = (b \<le> a)"

fun js_lt :: "jsnum \<Rightarrow> jsnum \<Rightarrow> bool" where
  "js_lt NaN _ = False"
| "js_lt _ NaN = False"
| "js_lt PInf _ = False"
| "js_lt _ NInf = False"
| "js_lt NInf _ = True"
| "js_lt _ PInf = True"
| "js_lt (Num a) (Num b) = (a < b)"

text \<open>Division by a finite non-zero number, all the source needs (\<open>value / 1000\<close>).\<close>

fun js_div :: "jsnum \<Rightarrow> rat \<Rightarrow> jsnum" where
  "js_div NaN d = NaN"
| "js_div (Num a) d = fl64 (a / d)"
| "js_div PInf d = (if 0 < d then PInf else NInf)"
| "js_div NInf d = (if 0 < d then NInf else PInf)"


definition js_of_int :: "int \<Rightarrow> jsnum" where
  "js_of_int i = fl64 (of_int i)"

section \<open>Regular expressions of the consumer (step\_definitions/steps.js)\<close>

text \<open>
  Strings are lists of 8-bit code units. \<open>\s\<close> is JavaScript's white space and line
  terminator class, here its members below 256: tab, line feed, vertical tab, form feed,
  carriage return, space and no-break space.
\<close>

definition is_space :: "char \<Rightarrow> bool" where
  "is_space c = (c \<in> set [CHR 0x09, CHR 0x0A, CHR 0x0B, CHR 0x0C, CHR 0x0D, CHR 0x20, CHR 0xA0])"

definition is_digit :: "char \<Rightarrow> bool" where
  "is_digit c = (48 \<le> (of_char c :: nat) \<and> (of_char c :: nat) \<le> 57)"

text \<open>The classes \<open>[.\s]\<close> and \<open>[0-9.]\<close>.\<close>

definition dot_or_space :: "char \<Rightarrow> bool" where
  "dot_or_space c = (c = CHR ''.'' \<or> is_space c)"

definition num_char :: "char \<Rightarrow> bool" where
  "num_char c = (is_digit c \<or> c = CHR ''.'')"

text \<open>
  A backtracking matcher in continuation-passing style, as the JavaScript engine runs a
  pattern: each piece consumes a prefix of the input and hands the rest to the
  continuation \<open>k\<close>; when the continuation fails (\<open>None\<close>) a greedy piece gives back
  one character and tries again. \<open>re_lit\<close> is a literal, \<open>re_star\<close> a greedy
  \<open>[class]*\<close>, \<open>re_plus_cap\<close> a capturing greedy \<open>([class]+)\<close>, \<open>re_unit\<close> the group
  \<open>(ms|s)\<close> and \<open>re_unit_opt\<close> the group \<open>(ms|s)?\<close>, whose capture is undefined
  (\<open>None\<close>) when the group does not take part in the match.
\<close>

fun re_lit :: "string \<Rightarrow> string \<Rightarrow> (string \<Rightarrow> 'a option) \<Rightarrow> 'a option" where
  "re_lit [] s k = k s"
| "re_lit (c # cs) [] k = None"
| "re_lit (c # cs) (d # ds) k = (if c = d then re_lit cs ds k else None)"

fun re_star :: "(char \<Rightarrow> bool) \<Rightarrow> string \<Rightarrow> (string \<Rightarrow> 'a option) \<Rightarrow> 'a option" where
  "re_star p [] k = k []"
| "re_star p (c # cs) k =
     (if p c then (case re_star p cs k of Some r \<Rightarrow> Some r | None \<Rightarrow> k (c # cs))
      else k (c # cs))"

fun re_star_cap ::
  "(char \<Rightarrow> bool) \<Rightarrow> string \<Rightarrow> string \<Rightarrow> (string \<Rightarrow> string \<Rightarrow> 'a option) \<Rightarrow> 'a option" where
  "re_star_cap p acc [] k = k acc []"
| "re_star_cap p acc (c # cs) k =
     (if p c
      then (case re_star_cap p (acc @ [c]) cs k of Some r \<Rightarrow> Some r | None \<Rightarrow> k acc (c # cs))
      else k acc (c # cs))"

definition re_plus_cap ::
  "(char \<Rightarrow> bool) \<Rightarrow> string \<Rightarrow> (string \<Rightarrow> string \<Rightarrow> 'a option) \<Rightarrow> 'a option" where
  "re_plus_cap p s k =
     (case s of [] \<Rightarrow> None | c # cs \<Rightarrow> if p c then re_star_cap p [c] cs k else None)"

definition re_unit :: "string \<Rightarrow> (string \<Rightarrow> string \<Rightarrow> 'a option) \<Rightarrow> 'a option" where
  "re_unit s k =
     (case re_lit ''ms'' s (k ''ms'') of Some r \<Rightarrow> Some r | None \<Rightarrow> re_lit ''s'' s (k ''s''))"

definition re_unit_opt ::
  "string \<Rightarrow> (string option \<Rightarrow> string \<Rightarrow> 'a option) \<Rightarrow> 'a option" where
  "re_unit_opt s k =
     (case re_unit s (\<lambda>u. k (Some u)) of Some r \<Rightarrow> Some r | None \<Rightarrow> k None s)"

text \<open>
  \<open>String.prototype.match\<close> with a pattern that has no \<open>g\<close> flag: the match at the
  leftmost start position where the pattern matches.
\<close>

fun re_search :: "(string \<Rightarrow> 'a option) \<Rightarrow> string \<Rightarrow> 'a option" where
  "re_search m [] = m []"
| "re_search m (c # cs) = (case m (c # cs) of Some r \<Rightarrow> Some r | None \<Rightarrow> re_search m cs)"

text \<open>
  \<^verbatim>\<open>/subcomponent_load_time[.\s]*:\s*avg=([0-9.]+)(ms|s)/\<close> and
  \<^verbatim>\<open>/main_page_load_time[.\s]*:\s*avg=([0-9.]+)(ms|s)?/\<close>, anchored at the start of
  the input; the result holds the two capture groups.
\<close>

definition subcomponent_re :: "string \<Rightarrow> (string \<times> string) option" where
  "subcomponent_re s =
     re_lit ''subcomponent_load_time'' s (\<lambda>s1.
     re_star dot_or_space s1 (\<lambda>s2.
     re_lit '':'' s2 (\<lambda>s3.
     re_star is_space s3 (\<lambda>s4.
     re_lit ''avg='' s4 (\<lambda>s5.
     re_plus_cap num_char s5 (\<lambda>g1 s6.
     re_unit s6 (\<lambda>g2 s7. Some (g1, g2))))))))"

definition main_page_re :: "string \<Rightarrow> (string \<times> string option) option" where
  "main_page_re s =
     re_lit ''main_page_load_time'' s (\<lambda>s1.
     re_star dot_or_space s1 (\<lambda>s2.
     re_lit '':'' s2 (\<lambda>s3.
     re_star is_space s3 (\<lambda>s4.
     re_lit ''avg='' s4 (\<lambda>s5.
     re_plus_cap num_char s5 (\<lambda>g1 s6.
     re_unit_opt s6 (\<lambda>g2 s7. Some (g1, g2))))))))"

text \<open>
  \<open>parseFloat\<close> on the first capture group, a non-empty string of digits and dots: the
  longest prefix that is a decimal literal (digits, then optionally a dot and digits, one
  of the two digit runs non-empty), rounded to binary64; \<open>NaN\<close> when there is none.
\<close>

definition digits_val :: "string \<Rightarrow> int" where
  "digits_val ds = foldl (\<lambda>n c. 10 * n + (of_char c - 48)) 0 ds"

definition parseFloat :: "string \<Rightarrow> jsnum" where
  "parseFloat s =
     (let ip = takeWhile is_digit s;
          r = dropWhile is_digit s;
          fp = (case r of [] \<Rightarrow> [] | c # cs \<Rightarrow> if c = CHR ''.'' then takeWhile is_digit cs else [])
      in if ip = [] \<and> fp = [] then NaN
         else fl64 (of_int (digits_val ip) + of_int (digits_val fp) / 10 ^ length fp))"

section \<open>The threshold steps (step\_definitions/steps.js)\<close>

text \<open>
  A step either returns or throws. \<open>Error msg\<close> is \<open>new Error(msg)\<close>; the message of
  the threshold failure prints the load time with \<open>toFixed\<close>, which is not modelled, so
  that error carries the two numbers compared instead.
\<close>

datatype step_error = Error string | NotLessThan jsnum jsnum

record k6_run =
  run_selector :: string
  run_expectedText :: string
  run_output :: string

text \<open>
  The load time in seconds that the main page step reads from the captured output
  \<open>k6Output\<close> (\<open>None\<close> is \<open>null\<close>, the step that runs k6 has not run).
\<close>

definition main_page_load_time :: "string option \<Rightarrow> step_error + jsnum" where
  "main_page_load_time k6Output =
     (case k6Output of
        None \<Rightarrow> Inl (Error ''No k6 output found for main page. Did you run the main page step?'')
      | Some out \<Rightarrow>
          if out = []
          then Inl (Error ''No k6 output found for main page. Did you run the main page step?'')
          else (case re_search main_page_re out of
                  None \<Rightarrow>
                    Inl (Error (''Could not find main_page_load_time metric in k6 output. Output was:''
                                @ [CHR 0x0A] @ out))
                | Some (g1, g2) \<Rightarrow>
                    let loadTime = parseFloat g1
                    in Inr (if g2 = Some ''ms'' then js_div loadTime 1000 else loadTime)))"

definition then_main_page_load_time :: "string option \<Rightarrow> int \<Rightarrow> step_error + unit" where
  "then_main_page_load_time k6Output maxTime =
     (case main_page_load_time k6Output of
        Inl e \<Rightarrow> Inl e
      | Inr loadTime \<Rightarrow>
          if isNaN loadTime \<or> js_ge loadTime (js_of_int maxTime)
          then Inl (NotLessThan loadTime (js_of_int maxTime))
          else Inr ())"

text \<open>The same for one entry of \<open>k6Outputs\<close>, and the loop over the entries.\<close>

definition subcomponent_load_time :: "k6_run \<Rightarrow> step_error + jsnum" where
  "subcomponent_load_time r =
     (case re_search subcomponent_re (run_output r) of
        None \<Rightarrow>
          Inl (Error (''Could not find subcomponent_load_time metric for selector '' @ run_selector r
                      @ '' in k6 output. Output was:'' @ [CHR 0x0A] @ run_output r))
      | Some (g1, g2) \<Rightarrow>
          let v = parseFloat g1
          in Inr (if g2 = ''ms'' then js_div v 1000 else v))"

fun each_subcomponent :: "k6_run list \<Rightarrow> int \<Rightarrow> step_error + unit" where
  "each_subcomponent [] maxTime = Inr ()"
| "each_subcomponent (r # rs) maxTime =
     (case subcomponent_load_time r of
        Inl e \<Rightarrow> Inl e
      | Inr loadTime \<Rightarrow>
          if isNaN loadTime \<or> js_ge loadTime (js_of_int maxTime)
          then Inl (NotLessThan loadTime (js_of_int maxTime))
          else each_subcomponent rs maxTime)"

definition then_each_subcomponent_load_time :: "k6_run list \<Rightarrow> int \<Rightarrow> step_error + unit" where
  "then_each_subcomponent_load_time k6Outputs maxTime =
     (if k6Outputs = []
      then Inl (Error ''No k6 outputs found. Did you run the subcomponents step?'')
      else each_subcomponent k6Outputs maxTime)"

section \<open>The report grammar, as the specification words it\<close>

text \<open>
  A metric line: the metric name, dots or white space, a colon, white space, \<open>avg=\<close>, a
  number (a maximal non-empty run of digits and dots) and the rest of the text.
  \<open>unit_of\<close> reads the unit the rest starts with. \<open>metric_at name need_unit s num u\<close>:
  the text \<open>s\<close> starts with a metric line for \<open>name\<close> with number \<open>num\<close> and unit \<open>u\<close>,
  where a unit is required or not. \<open>to_seconds\<close> normalises.
\<close>

definition metric_line :: "string \<Rightarrow> string \<Rightarrow> string \<Rightarrow> string \<Rightarrow> bool" where
  "metric_line name s num rest \<longleftrightarrow>
     (\<exists>fill ws. s = name @ fill @ '':'' @ ws @ ''avg='' @ num @ rest \<and>
        list_all dot_or_space fill \<and> list_all is_space ws \<and>
        num \<noteq> [] \<and> list_all num_char num \<and> (rest = [] \<or> \<not> num_char (hd rest)))"

definition unit_of :: "string \<Rightarrow> string option" where
  "unit_of rest = (if prefix ''ms'' rest then Some ''ms''
                   else if prefix ''s'' rest then Some ''s'' else None)"

definition metric_at :: "string \<Rightarrow> bool \<Rightarrow> string \<Rightarrow> string \<Rightarrow> string option \<Rightarrow> bool" where
  "metric_at name need_unit s num u \<longleftrightarrow>
     (\<exists>rest. metric_line name s num rest \<and> unit_of rest = u \<and> (need_unit \<longrightarrow> u \<noteq> None))"

definition to_seconds :: "string \<Rightarrow> string option \<Rightarrow> jsnum" where
  "to_seconds num u = (if u = Some ''ms'' then js_div (parseFloat num) 1000 else parseFloat num)"

text \<open>The part the two patterns share, up to and with the number (used in the proofs).\<close>

definition metric_head :: "string \<Rightarrow> string \<Rightarrow> (string \<Rightarrow> string \<Rightarrow> 'a option) \<Rightarrow> 'a option" where
  "metric_head name s k =
     re_lit name s (\<lambda>s1.
     re_star dot_or_space s1 (\<lambda>s2.
     re_lit '':'' s2 (\<lambda>s3.
     re_star is_space s3 (\<lambda>s4.
     re_lit ''avg='' s4 (\<lambda>s5.
     re_plus_cap num_char s5 k)))))"


section \<open>The configuration of the k6 script (k6/ui\_performance.js)\<close>

text \<open>
  \<open>__ENV\<close> maps names to strings. The unary plus of \<open>+__ENV.X\<close> is the runtime's
  conversion of a string to a number, a parameter \<open>toNumber\<close> of the model; a name that
  is not set converts to \<open>NaN\<close>. \<open>a || b\<close> on a number takes \<open>b\<close> when \<open>a\<close> is \<open>0\<close> or
  \<open>NaN\<close>; \<open>Math.max\<close> is \<open>NaN\<close> as soon as one argument is.
\<close>

type_synonym env = "string \<Rightarrow> string option"

definition env_num :: "(string \<Rightarrow> jsnum) \<Rightarrow> env \<Rightarrow> string \<Rightarrow> jsnum" where
  "env_num toNumber e k = (case e k of None \<Rightarrow> NaN | Some s \<Rightarrow> toNumber s)"

definition js_or :: "jsnum \<Rightarrow> jsnum \<Rightarrow> jsnum" where
  "js_or a b = (if a = NaN \<or> a = Num 0 then b else a)"

definition js_max :: "jsnum \<Rightarrow> jsnum \<Rightarrow> jsnum" where
  "js_max a b = (if isNaN a \<or> isNaN b then NaN else if js_ge a b then a else b)"

text \<open>\<open>s || d\<close> on an optional string, \<open>String.prototype.trim\<close> and \<open>?.trim()\<close>.\<close>

definition str_or :: "string option \<Rightarrow> string \<Rightarrow> string" where
  "str_or s d = (case s of None \<Rightarrow> d | Some v \<Rightarrow> if v = [] then d else v)"

definition js_trim :: "string \<Rightarrow> string" where
  "js_trim s = rev (dropWhile is_space (rev (dropWhile is_space s)))"

record timeouts_cfg =
  domcontentloaded :: jsnum
  element :: jsnum
  component :: jsnum
  http :: jsnum
  screenshot :: jsnum

record features_cfg =
  screenshots :: bool
  networkLogging :: bool
  highlighting :: bool

record config =
  vus :: jsnum
  iterations :: jsnum
  connectivityTimeThreshold :: jsnum
  testUrl :: "string option"
  subcomponentSelector :: "string option"
  expectedText :: "string option"
  timeouts :: timeouts_cfg
  pollInterval :: jsnum
  network_condition :: string
  network_profile :: string
  cpu_condition :: string
  cpu_throttling :: jsnum
  features :: features_cfg

definition CONFIG :: "(string \<Rightarrow> jsnum) \<Rightarrow> env \<Rightarrow> config" where
  "CONFIG toNumber e =
     \<lparr>vus = js_max (Num 1) (js_or (env_num toNumber e ''VUS'') (Num 1)),
      iterations = js_max (Num 1) (js_or (env_num toNumber e ''ITERATIONS'') (Num 1)),
      connectivityTimeThreshold =
        js_max (Num 100) (js_or (env_num toNumber e ''USER_CONNECTIVITY_TIME'') (Num 1000)),
      testUrl = map_option js_trim (e ''TEST_URL''),
      subcomponentSelector = map_option js_trim (e ''SUBCOMPONENT_SELECTOR''),
      expectedText = map_option js_trim (e ''EXPECTED_TEXT''),
      timeouts =
        \<lparr>domcontentloaded = js_max (Num 5000) (js_or (env_num toNumber e ''DOM_TIMEOUT'') (Num 20000)),
         element = js_max (Num 1000) (js_or (env_num toNumber e ''ELEMENT_TIMEOUT'') (Num 10000)),
         component = js_max (Num 1000) (js_or (env_num toNumber e ''COMPONENT_TIMEOUT'') (Num 5000)),
         http = js_max (Num 1000) (js_or (env_num toNumber e ''HTTP_TIMEOUT'') (Num 5000)),
         screenshot = js_max (Num 200) (js_or (env_num toNumber e ''SCREENSHOT_TIMEOUT'') (Num 500))\<rparr>,
      pollInterval = js_max (Num 50) (js_or (env_num toNumber e ''POLL_INTERVAL'') (Num 100)),
      network_condition = str_or (e ''K6_NETWORK_CONDITION'') ''WIFI'',
      network_profile = str_or (e ''K6_NETWORK_PROFILE'') ''WiFi'',
      cpu_condition = str_or (e ''K6_CPU_CONDITION'') ''HighCPU'',
      cpu_throttling = js_max (Num 1) (js_or (env_num toNumber e ''K6_CPU_THROTTLING'') (Num 1)),
      features =
        \<lparr>screenshots = (e ''ENABLE_SCREENSHOTS'' \<noteq> Some ''false''),
         networkLogging = (e ''ENABLE_NETWORK_LOGGING'' \<noteq> Some ''false''),
         highlighting = (e ''ENABLE_HIGHLIGHTING'' \<noteq> Some ''false'')\<rparr>\<rparr>"

text \<open>
  What a numeric setting comes to, in words: a setting that is absent, does not convert to
  a number or converts to \<open>0\<close> gives the default \<open>d\<close>; any other number below the
  minimum \<open>m\<close> gives \<open>m\<close>; a number at or above the minimum is kept.
\<close>

definition default_or_floored :: "rat \<Rightarrow> rat \<Rightarrow> jsnum \<Rightarrow> jsnum" where
  "default_or_floored m d v =
     (if v = NaN \<or> v = Num 0 then Num d
      else if js_lt v (Num m) then Num m
      else v)"

section \<open>Validation of the configuration\<close>

text \<open>
  Two more pieces of the matcher: a greedy optional character (\<open>s?\<close>) and the end of
  the input (\<open>$\<close>). \<^verbatim>\<open>/^https?:\/\/[^\s]+$/\<close> and
  \<^verbatim>\<open>/^[a-zA-Z0-9\[\]="':._#\-\s\(\),>+~*|^$]+$/\<close> are anchored at the start by
  \<open>^\<close>, so they are tried at position 0 only.
\<close>

definition re_opt_char :: "char \<Rightarrow> string \<Rightarrow> (string \<Rightarrow> 'a option) \<Rightarrow> 'a option" where
  "re_opt_char x s k =
     (case s of
        [] \<Rightarrow> k []
      | c # cs \<Rightarrow>
          if c = x then (case k cs of Some r \<Rightarrow> Some r | None \<Rightarrow> k (c # cs)) else k (c # cs))"

definition re_end :: "string \<Rightarrow> unit option" where
  "re_end s = (if s = [] then Some () else None)"

definition urlPattern :: "string \<Rightarrow> bool" where
  "urlPattern s =
     (re_lit ''http'' s (\<lambda>s1.
      re_opt_char CHR ''s'' s1 (\<lambda>s2.
      re_lit ''://'' s2 (\<lambda>s3.
      re_plus_cap (\<lambda>c. \<not> is_space c) s3 (\<lambda>g s4. re_end s4)))) \<noteq> None)"

definition is_alnum :: "char \<Rightarrow> bool" where
  "is_alnum c =
     ((97 \<le> (of_char c :: nat) \<and> (of_char c :: nat) \<le> 122) \<or>
      (65 \<le> (of_char c :: nat) \<and> (of_char c :: nat) \<le> 90) \<or> is_digit c)"

definition selector_char :: "char \<Rightarrow> bool" where
  "selector_char c =
     (is_alnum c \<or> is_space c \<or>
      c \<in> set (''[]=:._#-(),>+~*|^$'' @ [CHR 0x22, CHR 0x27]))"

definition selectorPattern :: "string \<Rightarrow> bool" where
  "selectorPattern s = (re_plus_cap selector_char s (\<lambda>g s1. re_end s1) \<noteq> None)"

datatype k6_error = K6Error string

text \<open>\<open>Array.prototype.join\<close> on strings.\<close>

fun js_join :: "string \<Rightarrow> string list \<Rightarrow> string" where
  "js_join sep [] = []"
| "js_join sep [x] = x"
| "js_join sep (x # y # ys) = x @ sep @ js_join sep (y # ys)"

definition url_errors :: "config \<Rightarrow> string list" where
  "url_errors cfg =
     (case testUrl cfg of
        None \<Rightarrow> [''TEST_URL is required and cannot be empty'']
      | Some u \<Rightarrow>
          if u = [] then [''TEST_URL is required and cannot be empty'']
          else if \<not> urlPattern u
          then [''TEST_URL must be a valid URL with http or https protocol, got: '' @ u]
          else [])"

definition selector_errors :: "config \<Rightarrow> string list" where
  "selector_errors cfg =
     (case subcomponentSelector cfg of
        None \<Rightarrow> []
      | Some sel \<Rightarrow>
          if sel \<noteq> [] \<and> \<not> selectorPattern sel
          then [''SUBCOMPONENT_SELECTOR must be a valid CSS selector, got: '' @ sel]
          else [])"

definition validateRequiredEnvironmentVariables :: "config \<Rightarrow> k6_error + unit" where
  "validateRequiredEnvironmentVariables cfg =
     (let validationErrors = url_errors cfg @ selector_errors cfg
      in if validationErrors \<noteq> []
         then Inl (K6Error (''Environment validation failed:'' @ [CHR 0x0A]
                            @ js_join [CHR 0x0A] (map (\<lambda>e. ''  - '' @ e) validationErrors)))
         else Inr ())"

text \<open>
  The exported iteration function calls the validation before everything else: the HTTP
  connectivity check, \<open>browser.newContext\<close>, the measurement and the cleanup are the
  stages \<open>later\<close>, which yield a result and the list of the effects they had. An exception
  of the validation leaves the function at once.
\<close>

datatype effect = HttpGet | NewContext | NewPage | Measure | Screenshot | ClosePage | CloseContext

definition default_iteration ::
  "config \<Rightarrow> (k6_error + 'r) \<times> effect list \<Rightarrow> (k6_error + 'r) \<times> effect list" where
  "default_iteration cfg later =
     (case validateRequiredEnvironmentVariables cfg of
        Inl err \<Rightarrow> (Inl err, [])
      | Inr u \<Rightarrow> later)"

text \<open>
  The objects of the module that outlive a call: \<open>CONFIG\<close>, a \<open>const\<close> object whose
  fields JavaScript leaves assignable. The iteration function, the validation and the
  later stages read fields of it (strings, numbers and booleans, which are values) and
  no statement of the script assigns to it or to a field of it; \<open>default_function\<close> is
  the iteration function on that state, \<open>later\<close> the stages after the validation as a
  function of what they read.
\<close>

record module_state =
  module_CONFIG :: config

definition default_function ::
  "(config \<Rightarrow> (k6_error + 'r) \<times> effect list) \<Rightarrow> module_state
     \<Rightarrow> ((k6_error + 'r) \<times> effect list) \<times> module_state" where
  "default_function later m =
     (default_iteration (module_CONFIG m) (later (module_CONFIG m)), m)"

section \<open>The name of a screenshot file (takeScreenshot)\<close>

text \<open>
  The decimal digits of a non-negative integer, as the template \<open>`VU${vuId}`\<close> prints
  the worker and iteration numbers.
\<close>

function show_nat :: "nat \<Rightarrow> string" where
  "show_nat n =
     (if n < 10 then [char_of (48 + n)]
      else show_nat (n div 10) @ [char_of (48 + n mod 10)])"
  by pat_completeness auto
termination
  by (relation "measure id") auto

declare show_nat.simps [simp del]

text \<open>
  \<open>replace(/[^a-zA-Z0-9\s]/g, "")\<close>, \<open>replace(/[@,]/g, "")\<close> and
  \<open>replace(/\s+/g, "_")\<close>, which puts one underscore for each maximal run of white space.
\<close>

definition strip_special :: "string \<Rightarrow> string" where
  "strip_special s = filter (\<lambda>c. is_alnum c \<or> is_space c) s"

definition strip_at_comma :: "string \<Rightarrow> string" where
  "strip_at_comma s = filter (\<lambda>c. c \<noteq> CHR ''@'' \<and> c \<noteq> CHR '','') s"

function spaces_to_underscore :: "string \<Rightarrow> string" where
  "spaces_to_underscore [] = []"
| "spaces_to_underscore (c # cs) =
     (if is_space c then CHR ''_'' # spaces_to_underscore (dropWhile is_space cs)
      else c # spaces_to_underscore cs)"
  by pat_completeness auto
termination
  by (relation "measure length") (auto simp: length_dropWhile_le less_Suc_eq_le)

text \<open>
  \<open>new Date().toISOString().replace(/[:.]/g, "-").slice(0, -5)\<close>, from the ISO string
  of the clock.
\<close>

definition timestamp :: "string \<Rightarrow> string" where
  "timestamp isoTime =
     (let r = map (\<lambda>c. if c = CHR '':'' \<or> c = CHR ''.'' then CHR ''-'' else c) isoTime
      in take (length r - 5) r)"

definition scenarioName :: "env \<Rightarrow> string" where
  "scenarioName e =
     take 30 (spaces_to_underscore (strip_special (str_or (e ''SCENARIO_NAME'') ''unknown_scenario'')))"

definition scenarioTags :: "env \<Rightarrow> string" where
  "scenarioTags e =
     take 20 (spaces_to_underscore (strip_at_comma (str_or (e ''SCENARIO_TAGS'') [])))"

definition cleanExpectedText :: "string option \<Rightarrow> string" where
  "cleanExpectedText expected =
     (case expected of
        None \<Rightarrow> []
      | Some t \<Rightarrow> if t = [] then [] else take 15 (spaces_to_underscore (strip_special t)))"

definition filenameParts ::
  "string \<Rightarrow> env \<Rightarrow> string \<Rightarrow> string \<Rightarrow> string option \<Rightarrow> nat \<Rightarrow> nat \<Rightarrow> string list" where
  "filenameParts isoTime e testType status expected vuId iterationId =
     filter (\<lambda>p. p \<noteq> [])
       [timestamp isoTime, scenarioName e, scenarioTags e, testType, status,
        cleanExpectedText expected, ''VU'' @ show_nat vuId, ''Iter'' @ show_nat iterationId]"

definition screenshotPath ::
  "string \<Rightarrow> env \<Rightarrow> string \<Rightarrow> string \<Rightarrow> string option \<Rightarrow> nat \<Rightarrow> nat \<Rightarrow> string" where
  "screenshotPath isoTime e testType status expected vuId iterationId =
     ''screenshots/''
     @ js_join ''_'' (filenameParts isoTime e testType status expected vuId iterationId) @ ''.png''"

text \<open>The characters the specification allows in a field of the name: \<open>[A-Za-z0-9_]\<close>.\<close>

definition name_char :: "char \<Rightarrow> bool" where
  "name_char c = (is_alnum c \<or> c = CHR ''_'')"

section \<open>The network correlator (measureReactUIPerformance)\<close>


















section \<open>Highlighting for a component screenshot (applyHighlighting, removeHighlighting)\<close>

subsection \<open>The inline style of an element\<close>

text \<open>
  \<open>element.style\<close> is the CSS declaration block of the element's \<open>style\<close> attribute. It
  holds declarations of longhand properties; of the six properties the script reads and
  assigns, \<open>backgroundColor\<close>, \<open>boxShadow\<close> and \<open>fontWeight\<close> are longhands, and
  \<open>padding\<close>, \<open>border\<close> and \<open>borderRadius\<close> are shorthands: \<open>padding\<close> stands for the
  padding of the four edges, \<open>border\<close> for the width, style and colour of the border at
  the four edges, \<open>borderRadius\<close> for the radius of the four corners. The block is
  modelled as the value declared for each of these longhands (\<open>None\<close>: not declared);
  the priority of a declaration, the order of the declarations and the \<open>border-image\<close>
  longhands, which an assignment to \<open>border\<close> resets, are left out.
\<close>

datatype edge = TopEdge | RightEdge | BottomEdge | LeftEdge

datatype corner = TopLeft | TopRight | BottomRight | BottomLeft

datatype longhand =
  BackgroundColor | BoxShadow | FontWeight
  | Padding edge | BorderWidth edge | BorderStyle edge | BorderColor edge
  | BorderRadius corner

type_synonym declarations = "longhand \<Rightarrow> string option"

definition edges :: "edge list" where
  "edges = [TopEdge, RightEdge, BottomEdge, LeftEdge]"

definition corners :: "corner list" where
  "corners = [TopLeft, TopRight, BottomRight, BottomLeft]"

text \<open>
  Reading a longhand gives its declared value, or the empty string; assigning the empty
  string removes the declaration, assigning a value declares it.
\<close>

definition get_longhand :: "longhand \<Rightarrow> declarations \<Rightarrow> string" where
  "get_longhand l d = (case d l of None \<Rightarrow> [] | Some v \<Rightarrow> v)"

definition set_longhand :: "longhand \<Rightarrow> string \<Rightarrow> declarations \<Rightarrow> declarations" where
  "set_longhand l v d = (if v = [] then d(l := None) else d(l \<mapsto> v))"

text \<open>
  The components of a value: split at the spaces that are not inside parentheses. A
  value of one to four components stands for four, as CSS fills them in (top, right,
  bottom, left; for the corners top-left, top-right, bottom-right, bottom-left), and four
  components are written in the shortest such form.
\<close>

fun css_components :: "nat \<Rightarrow> string \<Rightarrow> string \<Rightarrow> string list" where
  "css_components depth cur [] = (if cur = [] then [] else [cur])"
| "css_components depth cur (c # cs) =
     (if c = CHR '' '' \<and> depth = 0
      then (if cur = [] then css_components 0 [] cs else cur # css_components 0 [] cs)
      else css_components
             (if c = CHR ''('' then depth + 1 else if c = CHR '')'' then depth - 1 else depth)
             (cur @ [c]) cs)"

fun four_values :: "string list \<Rightarrow> string list option" where
  "four_values [a] = Some [a, a, a, a]"
| "four_values [a, b] = Some [a, b, a, b]"
| "four_values [a, b, c] = Some [a, b, c, b]"
| "four_values [a, b, c, d] = Some [a, b, c, d]"
| "four_values _ = None"

definition shortest_form :: "string \<Rightarrow> string \<Rightarrow> string \<Rightarrow> string \<Rightarrow> string list" where
  "shortest_form a b c d =
     (if d = b
      then (if c = a then (if b = a then [a] else [a, b]) else [a, b, c])
      else [a, b, c, d])"

text \<open>
  A shorthand over four longhands (\<open>padding\<close>, \<open>borderRadius\<close>). Reading it gives the
  empty string unless all four longhands are declared. Assigning the empty string removes
  the four declarations; assigning a value declares all four; a value that is not one to
  four components is ignored.
\<close>

definition get_four :: "longhand list \<Rightarrow> declarations \<Rightarrow> string" where
  "get_four ls d =
     (case map d ls of
        [Some a, Some b, Some c, Some e] \<Rightarrow> js_join '' '' (shortest_form a b c e)
      | _ \<Rightarrow> [])"

definition remove_all :: "longhand list \<Rightarrow> declarations \<Rightarrow> declarations" where
  "remove_all ls d = (\<lambda>l. if l \<in> set ls then None else d l)"

definition declare_all :: "(longhand \<times> string) list \<Rightarrow> declarations \<Rightarrow> declarations" where
  "declare_all lvs d = (\<lambda>l. case map_of lvs l of None \<Rightarrow> d l | Some v \<Rightarrow> Some v)"

definition set_four :: "longhand list \<Rightarrow> string \<Rightarrow> declarations \<Rightarrow> declarations" where
  "set_four ls v d =
     (if v = [] then remove_all ls d
      else (case four_values (css_components 0 [] v) of
              None \<Rightarrow> d
            | Some vs \<Rightarrow> declare_all (zip ls vs) d))"

text \<open>
  The shorthand \<open>border\<close>: a width, a style and a colour in any order, each at most once,
  for all four edges; a component left out takes its initial value. Reading it gives
  the empty string unless all twelve longhands are declared and the four edges agree.
\<close>

definition border_styles :: "string list" where
  "border_styles = [''none'', ''hidden'', ''dotted'', ''dashed'', ''solid'', ''double'',
                    ''groove'', ''ridge'', ''inset'', ''outset'']"

definition is_border_width :: "string \<Rightarrow> bool" where
  "is_border_width v =
     (v \<in> set [''thin'', ''medium'', ''thick''] \<or>
      (v \<noteq> [] \<and> (is_digit (hd v) \<or> hd v = CHR ''.'')))"

fun border_components ::
  "string list \<Rightarrow> string option \<times> string option \<times> string option
     \<Rightarrow> (string option \<times> string option \<times> string option) option" where
  "border_components [] wsc = Some wsc"
| "border_components (v # vs) (w, s, c) =
     (if v \<in> set border_styles
      then (if s = None then border_components vs (w, Some v, c) else None)
      else if is_border_width v
      then (if w = None then border_components vs (Some v, s, c) else None)
      else (if c = None then border_components vs (w, s, Some v) else None))"

definition border_longhands :: "longhand list" where
  "border_longhands = map BorderWidth edges @ map BorderStyle edges @ map BorderColor edges"

definition get_border :: "declarations \<Rightarrow> string" where
  "get_border d =
     (case (map (\<lambda>e. d (BorderWidth e)) edges, map (\<lambda>e. d (BorderStyle e)) edges,
            map (\<lambda>e. d (BorderColor e)) edges) of
        ([Some w, Some w1, Some w2, Some w3], [Some s, Some s1, Some s2, Some s3],
         [Some c, Some c1, Some c2, Some c3]) \<Rightarrow>
          if w1 = w \<and> w2 = w \<and> w3 = w \<and> s1 = s \<and> s2 = s \<and> s3 = s \<and> c1 = c \<and> c2 = c \<and> c3 = c
          then js_join '' '' [w, s, c] else []
      | _ \<Rightarrow> [])"

definition set_border :: "string \<Rightarrow> declarations \<Rightarrow> declarations" where
  "set_border v d =
     (if v = [] then remove_all border_longhands d
      else (case border_components (css_components 0 [] v) (None, None, None) of
              None \<Rightarrow> d
            | Some (w, s, c) \<Rightarrow>
                declare_all
                  (map (\<lambda>e. (BorderWidth e, case w of None \<Rightarrow> ''medium'' | Some x \<Rightarrow> x)) edges
                   @ map (\<lambda>e. (BorderStyle e, case s of None \<Rightarrow> ''none'' | Some x \<Rightarrow> x)) edges
                   @ map (\<lambda>e. (BorderColor e, case c of None \<Rightarrow> ''currentcolor'' | Some x \<Rightarrow> x)) edges)
                  d))"

subsection \<open>The page and the two functions\<close>

text \<open>
  The six properties as an object of strings: the object \<open>original\<close> that
  \<open>applyHighlighting\<close> reads from \<open>parent.style\<close>, and the object of the highlight that it
  assigns. \<open>read_style\<close> is the object literal of the six reads, \<open>assign_style\<close> is
  \<open>Object.assign(element.style, ...)\<close>, which assigns the six properties in their order.
\<close>

record style =
  backgroundColor :: string
  padding :: string
  border :: string
  borderRadius :: string
  boxShadow :: string
  fontWeight :: string

definition read_style :: "declarations \<Rightarrow> style" where
  "read_style d =
     \<lparr>backgroundColor = get_longhand BackgroundColor d,
      padding = get_four (map Padding edges) d,
      border = get_border d,
      borderRadius = get_four (map BorderRadius corners) d,
      boxShadow = get_longhand BoxShadow d,
      fontWeight = get_longhand FontWeight d\<rparr>"

definition assign_style :: "style \<Rightarrow> declarations \<Rightarrow> declarations" where
  "assign_style st d =
     set_longhand FontWeight (fontWeight st)
       (set_longhand BoxShadow (boxShadow st)
         (set_four (map BorderRadius corners) (borderRadius st)
           (set_border (border st)
             (set_four (map Padding edges) (padding st)
               (set_longhand BackgroundColor (backgroundColor st) d)))))"

definition highlight_style :: style where
  "highlight_style =
     \<lparr>backgroundColor = ''rgba(255,255,0,0.8)'', padding = ''4px 8px'',
      border = ''2px solid rgba(255,165,0,0.9)'', borderRadius = ''4px'',
      boxShadow = ''0 0 8px rgba(255,165,0,0.6)'', fontWeight = ''bold''\<rparr>"

text \<open>
  Of a DOM element what the code touches: its inline style and \<open>dataset.highlighted\<close>
  (\<open>None\<close> when the attribute is absent).
\<close>

record element_state =
  elem_style :: declarations
  highlighted :: "string option"

text \<open>
  \<open>document.querySelector(sel)\<close> throws on a selector that is not valid, returns null,
  or returns an element; of the element the model keeps the text nodes below it in
  document order, each with its text and its parent element (an address of the store).
\<close>

datatype query_result = QueryThrows | QueryNull | QueryElement "(string \<times> nat option) list"

text \<open>
  The page: the store of its elements, \<open>window._highlightedElements\<close> (\<open>None\<close> for
  undefined or null) and the selector lookup.
\<close>

record page_state =
  elements :: "nat \<Rightarrow> element_state"
  window_highlighted :: "(nat \<times> style) list option"
  querySelector :: "string \<Rightarrow> query_result"

text \<open>Truthiness of an optional string: defined and not empty.\<close>

definition truthy :: "string option \<Rightarrow> bool" where
  "truthy s = (case s of None \<Rightarrow> False | Some v \<Rightarrow> v \<noteq> [])"

text \<open>
  The loop of the tree walker over the text nodes: \<open>els\<close> is the store,
  \<open>highlightedElements\<close> the array built so far.
\<close>

fun highlight_nodes ::
  "string \<Rightarrow> (string \<times> nat option) list \<Rightarrow> (nat \<Rightarrow> element_state) \<Rightarrow> (nat \<times> style) list
     \<Rightarrow> (nat \<Rightarrow> element_state) \<times> (nat \<times> style) list" where
  "highlight_nodes txt [] els highlightedElements = (els, highlightedElements)"
| "highlight_nodes txt ((textContent, parent) # nodes) els highlightedElements =
     (if sublist txt textContent
      then (case parent of
              None \<Rightarrow> highlight_nodes txt nodes els highlightedElements
            | Some p \<Rightarrow>
                if \<not> truthy (highlighted (els p))
                then highlight_nodes txt nodes
                       (els(p := \<lparr>elem_style = assign_style highlight_style (elem_style (els p)),
                                 highlighted = Some ''true''\<rparr>))
                       (highlightedElements @ [(p, read_style (elem_style (els p)))])
                else highlight_nodes txt nodes els highlightedElements)
      else highlight_nodes txt nodes els highlightedElements)"

text \<open>
  \<open>applyHighlighting\<close>: nothing when highlighting is off; an exception of the page script
  is caught and leaves the page as it was; the waits after the script do not change the
  page.
\<close>

definition applyHighlighting ::
  "bool \<Rightarrow> page_state \<Rightarrow> string \<Rightarrow> string option \<Rightarrow> page_state" where
  "applyHighlighting highlighting_on pg sel expected =
     (if \<not> highlighting_on then pg
      else (case querySelector pg sel of
              QueryThrows \<Rightarrow> pg
            | QueryNull \<Rightarrow> pg
            | QueryElement nodes \<Rightarrow>
                if \<not> truthy expected then pg
                else (let (els, highlightedElements) =
                            highlight_nodes (the expected) nodes (elements pg) []
                      in pg\<lparr>elements := els, window_highlighted := Some highlightedElements\<rparr>)))"

text \<open>\<open>Object.assign(element.style, original); delete element.dataset.highlighted\<close>.\<close>

definition restore_element ::
  "(nat \<Rightarrow> element_state) \<Rightarrow> nat \<times> style \<Rightarrow> (nat \<Rightarrow> element_state)" where
  "restore_element els h =
     els(fst h := \<lparr>elem_style = assign_style (snd h) (elem_style (els (fst h))),
                  highlighted = None\<rparr>)"

definition removeHighlighting :: "bool \<Rightarrow> page_state \<Rightarrow> page_state" where
  "removeHighlighting highlighting_on pg =
     (if \<not> highlighting_on then pg
      else (case window_highlighted pg of
              None \<Rightarrow> pg
            | Some highlightedElements \<Rightarrow>
                pg\<lparr>elements := foldl restore_element (elements pg) highlightedElements,
                   window_highlighted := None\<rparr>))"

section \<open>The readiness poller (waitForReactComponentReady)\<close>

text \<open>
  What the browser answers when the poller samples the component. A call of the browser
  returns or throws. \<open>obs_element\<close> is \<open>page.$(selector)\<close> (found or null),
  \<open>obs_visible\<close> is \<open>element.isVisible()\<close>, \<open>obs_enabled\<close> is
  \<open>element.isEnabled()\<close> (\<open>None\<close> when \<open>isEnabled\<close> is not a function),
  \<open>obs_textContent\<close> is \<open>element.textContent()\<close> (a string or null),
  \<open>obs_text_visible\<close> is \<open>isVisible()\<close> of the locator for the expected text and
  \<open>obs_paint\<close> is the value the script of \<open>checkPaintCompletion\<close> resolves to.
\<close>

datatype 'a probe = Throws | Returns 'a

record observation =
  obs_element :: "bool probe"
  obs_visible :: "bool probe"
  obs_enabled :: "bool probe option"
  obs_textContent :: "string option probe"
  obs_text_visible :: "bool probe"
  obs_paint :: "bool probe"

record componentState =
  isVisible :: bool
  isEnabled :: bool
  isInteractable :: bool
  containsExpectedText :: bool
  expectedTextIsVisible :: bool
  paintWorkCompleted :: bool
  loadTime :: int

text \<open>
  The conditions of the checklist, in their order, and the awaited calls of the browser:
  the probe that decides a condition (in the order of the conditions:
  \<open>page.$(selector)\<close>, \<open>element.isVisible()\<close>, \<open>element.isEnabled()\<close>,
  \<open>element.textContent()\<close>, the \<open>isVisible()\<close> of the text locator and the
  \<open>page.evaluate\<close> of \<open>checkPaintCompletion\<close>) and \<open>page.waitForTimeout(d)\<close>.
\<close>

datatype condition =
  Exists | Visible | Enabled | ContainsText | TextVisible | PaintCompleted

datatype call = Probe condition | WaitForTimeout int

text \<open>
  The browser as the poller meets it. \<open>observe page sel t\<close> is what the probes of the
  component at selector \<open>sel\<close> answer when they are called at the reading \<open>t\<close> of the clock
  (\<open>Date.now()\<close>, in ms). \<open>delay page c t\<close> is the time the awaited call \<open>c\<close>, made at the
  reading \<open>t\<close>, takes to return; for a wait it is the time beyond the timeout asked for.
  The clock moves in the awaited calls only: the statements between two of them run at
  one reading.
\<close>

record browser =
  observe :: "string \<Rightarrow> int \<Rightarrow> observation"
  delay :: "call \<Rightarrow> int \<Rightarrow> nat"

text \<open>
  The variables of the loop: the component state, \<open>lastCheckTime\<close> and the clock; and the
  record of the awaited calls made so far, each with the reading of the clock at which it
  was made. \<open>await\<close> is an awaited call: it is recorded and the clock moves on by the
  time the call takes; a wait takes its timeout when that is positive. \<open>ask\<close> is an
  awaited probe with its answer.
\<close>

record poller =
  pl_state :: componentState
  lastCheckTime :: int
  clock :: int
  calls :: "(call \<times> int) list"

definition await :: "browser \<Rightarrow> call \<Rightarrow> poller \<Rightarrow> poller" where
  "await page c s =
     s\<lparr>clock := clock s + (case c of Probe x \<Rightarrow> 0 | WaitForTimeout d \<Rightarrow> max 0 d)
                 + int (delay page c (clock s)),
       calls := calls s @ [(c, clock s)]\<rparr>"

definition ask ::
  "browser \<Rightarrow> string \<Rightarrow> condition \<Rightarrow> (observation \<Rightarrow> 'a) \<Rightarrow> poller \<Rightarrow> 'a \<times> poller" where
  "ask page sel c answer s = (answer (observe page sel (clock s)), await page (Probe c) s)"

text \<open>
  \<open>checkPaintCompletion\<close>, which catches an exception of its script and returns false
  then; and the statements \<open>componentState.paintWorkCompleted = await
  checkPaintCompletion(page); if (componentState.paintWorkCompleted) { ...; break; }\<close>,
  which stand twice in the source. The first component of the result says whether the
  loop is left (the load time is set by the loop, below).
\<close>

definition checkPaintCompletion :: "browser \<Rightarrow> string \<Rightarrow> poller \<Rightarrow> bool \<times> poller" where
  "checkPaintCompletion page sel s =
     (case ask page sel PaintCompleted obs_paint s of
        (Throws, s') \<Rightarrow> (False, s')
      | (Returns b, s') \<Rightarrow> (b, s'))"

definition paint_step :: "browser \<Rightarrow> string \<Rightarrow> poller \<Rightarrow> bool \<times> poller" where
  "paint_step page sel s =
     (case checkPaintCompletion page sel s of
        (b, s') \<Rightarrow> (b, s'\<lparr>pl_state := (pl_state s')\<lparr>paintWorkCompleted := b\<rparr>\<rparr>))"

text \<open>
  The body of \<open>if (componentState.isInteractable) { ... }\<close>: with an expected text, the
  text of the element, the visibility of the text (an exception of that probe is caught
  and the visibility of the element taken instead) and the paint check; with none, the
  two text flags are set and the paint check follows. An exception of
  \<open>element.textContent()\<close> leaves the \<open>try\<close> block with the state as it is.
\<close>

definition interactable_block ::
  "browser \<Rightarrow> string \<Rightarrow> string option \<Rightarrow> poller \<Rightarrow> bool \<times> poller" where
  "interactable_block page sel expected s =
     (if truthy expected
      then
        (case ask page sel ContainsText obs_textContent s of
           (Throws, s1) \<Rightarrow> (False, s1)
         | (Returns textContent, s1) \<Rightarrow>
             let s2 = s1\<lparr>pl_state := (pl_state s1)\<lparr>containsExpectedText :=
                          (case textContent of None \<Rightarrow> False
                           | Some t \<Rightarrow> sublist (the expected) t)\<rparr>\<rparr>
             in if containsExpectedText (pl_state s2)
                then
                  (case ask page sel TextVisible obs_text_visible s2 of
                     (tv, s3) \<Rightarrow>
                       let s4 = s3\<lparr>pl_state := (pl_state s3)\<lparr>expectedTextIsVisible :=
                                    (case tv of Throws \<Rightarrow> isVisible (pl_state s3)
                                     | Returns b \<Rightarrow> b)\<rparr>\<rparr>
                       in if expectedTextIsVisible (pl_state s4)
                          then paint_step page sel s4
                          else (False, s4))
                else (False, s2))
      else
        paint_step page sel
          (s\<lparr>pl_state := (pl_state s)\<lparr>containsExpectedText := True,
                                         expectedTextIsVisible := True\<rparr>\<rparr>))"





subsection \<open>The checklist, in the words of the specification\<close>

text \<open>
  The checklist for a call, and when an observation of the component meets a condition:
  the element exists, is visible and is enabled (which it is taken to be when it has no
  \<open>isEnabled\<close>); when an expected text is configured the element's text contains it and
  that text is visible (a failing visibility probe of the text counts as visible, as the
  poller takes it); the paint signal has fired.
\<close>

definition checklist :: "string option \<Rightarrow> condition list" where
  "checklist expected =
     (if truthy expected then [Exists, Visible, Enabled, ContainsText, TextVisible, PaintCompleted]
      else [Exists, Visible, Enabled, PaintCompleted])"

fun met :: "string option \<Rightarrow> observation \<Rightarrow> condition \<Rightarrow> bool" where
  "met expected ob Exists = (obs_element ob = Returns True)"
| "met expected ob Visible = (obs_visible ob = Returns True)"
| "met expected ob Enabled = (obs_enabled ob = None \<or> obs_enabled ob = Some (Returns True))"
| "met expected ob ContainsText =
     (case obs_textContent ob of Returns (Some t) \<Rightarrow> sublist (the expected) t | _ \<Rightarrow> False)"
| "met expected ob TextVisible = (obs_text_visible ob \<noteq> Returns False)"
| "met expected ob PaintCompleted = (obs_paint ob = Returns True)"


text \<open>
  A pass that follows the checklist: \<open>follows page sel expected cs run\<close> says that the
  probe calls \<open>run\<close>, each with the reading of the clock at which it was made, decide the
  conditions \<open>cs\<close> in their order, one call for each condition (none for \<open>Enabled\<close> when
  the element has no \<open>isEnabled\<close> at that reading), up to and including the first
  condition that the answer at its call does not meet, and no further.
\<close>

fun follows ::
  "browser \<Rightarrow> string \<Rightarrow> string option \<Rightarrow> condition list \<Rightarrow> (call \<times> int) list \<Rightarrow> bool" where
  "follows page sel expected [] run = (run = [])"
| "follows page sel expected (c # cs) [] = False"
| "follows page sel expected (c # cs) ((k, t) # run) =
     (if c = Enabled \<and> obs_enabled (observe page sel t) = None
      then follows page sel expected cs ((k, t) # run)
      else k = Probe c \<and>
           (if met expected (observe page sel t) c then follows page sel expected cs run
            else run = []))"



text \<open>A run in which every call is a probe whose condition the answer at the call meets.\<close>

definition all_met :: "browser \<Rightarrow> string \<Rightarrow> string option \<Rightarrow> (call \<times> int) list \<Rightarrow> bool" where
  "all_met page sel expected run =
     list_all (\<lambda>(k, t). case k of Probe c \<Rightarrow> met expected (observe page sel t) c
                          | WaitForTimeout d \<Rightarrow> False) run"


text \<open>
  Used in the proofs: \<open>timed page t run t'\<close> says that the calls \<open>run\<close> were made one after
  the other from the reading \<open>t\<close> on, each when the one before it had returned, and that
  the last of them returned at \<open>t'\<close>; \<open>added s s'\<close> is what \<open>s'\<close> has recorded beyond \<open>s\<close>;
  a record is \<open>closed\<close> when no pass is open at its end.
\<close>

fun timed :: "browser \<Rightarrow> int \<Rightarrow> (call \<times> int) list \<Rightarrow> int \<Rightarrow> bool" where
  "timed page t [] t' = (t' = t)"
| "timed page t ((k, u) # run) t' = (u = t \<and> timed page (t + int (delay page k t)) run t')"

definition added :: "poller \<Rightarrow> poller \<Rightarrow> (call \<times> int) list" where
  "added s s' = drop (length (calls s)) (calls s')"





section \<open>The matcher against the grammar\<close>

lemma re_lit_prefix:
  "re_lit l s k = (if prefix l s then k (drop (length l) s) else None)"
  by (induction l s k rule: re_lit.induct) auto

lemma re_lit_app: "re_lit l (l @ s) k = k s"
  by (simp add: re_lit_prefix)

lemma re_star_det:
  assumes "\<And>c cs. p c \<Longrightarrow> k (c # cs) = None"
  shows "re_star p s k = k (dropWhile p s)"
  using assms by (induction s) (auto split: option.splits)

lemma re_star_cap_det:
  assumes "\<And>a c cs. p c \<Longrightarrow> k a (c # cs) = None"
  shows "re_star_cap p acc s k = k (acc @ takeWhile p s) (dropWhile p s)"
  using assms by (induction s arbitrary: acc) (auto split: option.splits)

lemma re_star_cap_total:
  assumes "\<And>a r. k a r \<noteq> None"
  shows "re_star_cap p acc s k = k (acc @ takeWhile p s) (dropWhile p s)"
  using assms 
proof (induction s arbitrary: acc)
  case Nil then show ?case by simp
next
  case (Cons c cs)
  show ?case
  proof (cases "p c")
    case True
    have "re_star_cap p (acc @ [c]) cs k = k ((acc @ [c]) @ takeWhile p cs) (dropWhile p cs)"
      using Cons by blast
    moreover obtain r where "k ((acc @ [c]) @ takeWhile p cs) (dropWhile p cs) = Some r"
      using Cons.prems by (meson option.exhaust)
    ultimately show ?thesis using True by simp
  next
    case False then show ?thesis by simp
  qed
qed

lemma re_search_Some:
  "re_search m s = Some r \<longleftrightarrow>
     (\<exists>i\<le>length s. m (drop i s) = Some r \<and> (\<forall>j<i. m (drop j s) = None))"
proof (induction s)
  case Nil then show ?case by auto
next
  case (Cons c cs)
  show ?case
  proof (cases "m (c # cs)")
    case (Some x)
    have "(\<exists>i\<le>length (c # cs). m (drop i (c # cs)) = Some r \<and> (\<forall>j<i. m (drop j (c # cs)) = None)) \<longleftrightarrow> x = r"
    proof
      assume "\<exists>i\<le>length (c # cs). m (drop i (c # cs)) = Some r \<and> (\<forall>j<i. m (drop j (c # cs)) = None)"
      then obtain i where i: "m (drop i (c # cs)) = Some r" "\<forall>j<i. m (drop j (c # cs)) = None" by blast
      have "i = 0" proof (rule ccontr) assume "i \<noteq> 0" then have "m (drop 0 (c # cs)) = None" using i(2) by blast
        then show False using Some by simp qed
      then show "x = r" using i(1) Some by simp
    next
      assume "x = r" then show "\<exists>i\<le>length (c # cs). m (drop i (c # cs)) = Some r \<and> (\<forall>j<i. m (drop j (c # cs)) = None)"
        using Some by (intro exI[of _ 0]) simp
    qed
    then show ?thesis using Some by simp
  next
    case None
    have "(\<exists>i\<le>length (c # cs). m (drop i (c # cs)) = Some r \<and> (\<forall>j<i. m (drop j (c # cs)) = None))
       \<longleftrightarrow> (\<exists>i\<le>length cs. m (drop i cs) = Some r \<and> (\<forall>j<i. m (drop j cs) = None))" (is "?L \<longleftrightarrow> ?R")
    proof
      assume ?L
      then obtain i where i: "i \<le> length (c # cs)" "m (drop i (c # cs)) = Some r" "\<forall>j<i. m (drop j (c # cs)) = None" by blast
      have "i \<noteq> 0" using i(2) None by (cases i) auto
      then obtain i' where i': "i = Suc i'" by (cases i) auto
      have "\<forall>j<i'. m (drop j cs) = None"
      proof (intro allI impI)
        fix j assume "j < i'" then have "Suc j < i" using i' by simp
        then have "m (drop (Suc j) (c # cs)) = None" using i(3) by blast
        then show "m (drop j cs) = None" by simp
      qed
      then show ?R using i i' by (intro exI[of _ i']) simp
    next
      assume ?R
      then obtain i where i: "i \<le> length cs" "m (drop i cs) = Some r" "\<forall>j<i. m (drop j cs) = None" by blast
      have "\<forall>j<Suc i. m (drop j (c # cs)) = None"
      proof (intro allI impI)
        fix j assume j: "j < Suc i" show "m (drop j (c # cs)) = None"
          using None i(3) j by (cases j) auto
      qed
      then show ?L using i by (intro exI[of _ "Suc i"]) simp
    qed
    then show ?thesis using None Cons.IH by simp
  qed
qed

lemma re_search_None:
  "re_search m s = None \<longleftrightarrow> (\<forall>i\<le>length s. m (drop i s) = None)"
proof (induction s)
  case Nil then show ?case by simp
next
  case (Cons c cs)
  have "(\<forall>i\<le>length (c # cs). m (drop i (c # cs)) = None) \<longleftrightarrow> m (c # cs) = None \<and> (\<forall>i\<le>length cs. m (drop i cs) = None)"
    (is "?L \<longleftrightarrow> ?R")
  proof
    assume L: ?L
    have "m (drop 0 (c # cs)) = None" using L by blast
    moreover have "\<forall>i\<le>length cs. m (drop i cs) = None"
    proof (intro allI impI)
      fix i assume "i \<le> length cs" then have "m (drop (Suc i) (c # cs)) = None" using L by (metis Suc_le_mono length_Cons)
      then show "m (drop i cs) = None" by simp
    qed
    ultimately show ?R by simp
  next
    assume R: ?R
    show ?L proof (intro allI impI) fix i assume "i \<le> length (c # cs)" then show "m (drop i (c # cs)) = None"
        using R by (cases i) auto qed
  qed
  then show ?case using Cons.IH by (auto split: option.splits)
qed

lemma re_plus_cap_run:
  assumes "(\<forall>a c cs. p c \<longrightarrow> k a (c # cs) = None) \<or> (\<forall>a r. k a r \<noteq> None)"
  shows "re_plus_cap p s k =
           (if takeWhile p s = [] then None else k (takeWhile p s) (dropWhile p s))"
proof (cases s)
  case Nil then show ?thesis by (simp add: re_plus_cap_def)
next
  case (Cons c cs)
  have "re_star_cap p [c] cs k = k ([c] @ takeWhile p cs) (dropWhile p cs)"
    using assms re_star_cap_det[of p k "[c]" cs] re_star_cap_total[of k p "[c]" cs] by blast
  then show ?thesis using Cons by (simp add: re_plus_cap_def)
qed

lemma colon_not_dot_or_space: "\<not> dot_or_space CHR '':''"
  by (simp add: dot_or_space_def is_space_def)

lemma a_not_space: "\<not> is_space CHR ''a''"
  by (simp add: is_space_def)

lemma takeWhile_run:
  "list_all p xs \<Longrightarrow> ys = [] \<or> \<not> p (hd ys) \<Longrightarrow> takeWhile p (xs @ ys) = xs"
  by (cases ys) (auto simp: list_all_iff)

lemma dropWhile_run:
  "list_all p xs \<Longrightarrow> ys = [] \<or> \<not> p (hd ys) \<Longrightarrow> dropWhile p (xs @ ys) = ys"
  by (cases ys) (auto simp: list_all_iff)

lemma metric_head_run:
  assumes k: "(\<forall>a c cs. num_char c \<longrightarrow> k a (c # cs) = None) \<or> (\<forall>a r. k a r \<noteq> None)"
  shows "metric_head name s k =
     (if prefix name s then
        let s2 = dropWhile dot_or_space (drop (length name) s) in
        if prefix '':'' s2 then
          let s4 = dropWhile is_space (drop 1 s2) in
          if prefix ''avg='' s4 then
            let s5 = drop 4 s4 in
            if takeWhile num_char s5 = [] then None
            else k (takeWhile num_char s5) (dropWhile num_char s5)
          else None
        else None
      else None)"
proof -
  have 1: "\<And>k'. re_star is_space s3 (\<lambda>s4. re_lit ''avg='' s4 k')
             = re_lit ''avg='' (dropWhile is_space s3) k'" for s3
    by (rule re_star_det) (use a_not_space in auto)
  have 2: "\<And>k'. re_star dot_or_space s1 (\<lambda>s2. re_lit '':'' s2 k')
             = re_lit '':'' (dropWhile dot_or_space s1) k'" for s1
    by (rule re_star_det) (use colon_not_dot_or_space in auto)
  show ?thesis
    unfolding metric_head_def 1 2 re_plus_cap_run[OF k]
    by (simp add: re_lit_prefix Let_def eval_nat_numeral)
qed

lemma metric_head_iff:
  assumes k: "(\<forall>a c cs. num_char c \<longrightarrow> k a (c # cs) = None) \<or> (\<forall>a r. k a r \<noteq> None)"
  shows "metric_head name s k = Some r \<longleftrightarrow>
           (\<exists>num rest. metric_line name s num rest \<and> k num rest = Some r)"
proof
  assume L: "metric_head name s k = Some r"
  define s1 where "s1 = drop (length name) s"
  define s2 where "s2 = dropWhile dot_or_space s1"
  define s4 where "s4 = dropWhile is_space (drop 1 s2)"
  define s5 where "s5 = drop 4 s4"
  from L have p1: "prefix name s" and p2: "prefix '':'' s2" and p3: "prefix ''avg='' s4"
    and ne: "takeWhile num_char s5 \<noteq> []"
    and kr: "k (takeWhile num_char s5) (dropWhile num_char s5) = Some r"
    unfolding metric_head_run[OF k] s1_def s2_def s4_def s5_def
    by (auto simp: Let_def split: if_splits)
  have e1: "s = name @ s1" using p1 by (auto simp: prefix_def s1_def)
  have e2: "s1 = takeWhile dot_or_space s1 @ s2" by (simp add: s2_def)
  have e3: "s2 = '':'' @ drop 1 s2" using p2 by (auto simp: prefix_def)
  have e4: "drop 1 s2 = takeWhile is_space (drop 1 s2) @ s4" by (simp add: s4_def)
  have e5: "s4 = ''avg='' @ s5" using p3 by (auto simp: prefix_def s5_def)
  have e6: "s5 = takeWhile num_char s5 @ dropWhile num_char s5" by simp
  have "s = name @ takeWhile dot_or_space s1 @ '':'' @ takeWhile is_space (drop 1 s2) @ ''avg=''
             @ takeWhile num_char s5 @ dropWhile num_char s5"
    using e1 e2 e3 e4 e5 e6 by (metis append.assoc)
  moreover have "list_all dot_or_space (takeWhile dot_or_space s1)"
    "list_all is_space (takeWhile is_space (drop 1 s2))"
    "list_all num_char (takeWhile num_char s5)"
    by (auto simp: list_all_iff dest: set_takeWhileD)
  moreover have "dropWhile num_char s5 = [] \<or> \<not> num_char (hd (dropWhile num_char s5))"
    using hd_dropWhile by blast
  ultimately have "metric_line name s (takeWhile num_char s5) (dropWhile num_char s5)"
    unfolding metric_line_def using ne by blast
  then show "\<exists>num rest. metric_line name s num rest \<and> k num rest = Some r"
    using kr by blast
next
  assume "\<exists>num rest. metric_line name s num rest \<and> k num rest = Some r"
  then obtain num rest fill ws where
    s: "s = name @ fill @ '':'' @ ws @ ''avg='' @ num @ rest"
    and f: "list_all dot_or_space fill" and w: "list_all is_space ws"
    and n: "num \<noteq> []" "list_all num_char num" and r: "rest = [] \<or> \<not> num_char (hd rest)"
    and kr: "k num rest = Some r"
    unfolding metric_line_def by blast
  have d1: "dropWhile dot_or_space (fill @ '':'' @ ws @ ''avg='' @ num @ rest)
              = '':'' @ ws @ ''avg='' @ num @ rest"
    by (rule dropWhile_run[OF f]) (simp add: colon_not_dot_or_space)
  have d2: "dropWhile is_space (ws @ ''avg='' @ num @ rest) = ''avg='' @ num @ rest"
    by (rule dropWhile_run[OF w]) (simp add: a_not_space)
  have t: "takeWhile num_char (num @ rest) = num" "dropWhile num_char (num @ rest) = rest"
    using takeWhile_run[OF n(2) r] dropWhile_run[OF n(2) r] by auto
  show "metric_head name s k = Some r"
    unfolding metric_head_run[OF k] s using d1 d2 t n kr by (simp add: Let_def)
qed

lemma metric_head_line:
  assumes k: "(\<forall>a c cs. num_char c \<longrightarrow> k a (c # cs) = None) \<or> (\<forall>a r. k a r \<noteq> None)"
    and l: "metric_line name s num rest"
  shows "metric_head name s k = k num rest"
proof -
  obtain fill ws where
    s: "s = name @ fill @ '':'' @ ws @ ''avg='' @ num @ rest"
    and f: "list_all dot_or_space fill" and w: "list_all is_space ws"
    and n: "num \<noteq> []" "list_all num_char num" and r: "rest = [] \<or> \<not> num_char (hd rest)"
    using l unfolding metric_line_def by blast
  have d1: "dropWhile dot_or_space (fill @ '':'' @ ws @ ''avg='' @ num @ rest)
              = '':'' @ ws @ ''avg='' @ num @ rest"
    by (rule dropWhile_run[OF f]) (simp add: colon_not_dot_or_space)
  have d2: "dropWhile is_space (ws @ ''avg='' @ num @ rest) = ''avg='' @ num @ rest"
    by (rule dropWhile_run[OF w]) (simp add: a_not_space)
  have t: "takeWhile num_char (num @ rest) = num" "dropWhile num_char (num @ rest) = rest"
    using takeWhile_run[OF n(2) r] dropWhile_run[OF n(2) r] by auto
  show ?thesis
    unfolding metric_head_run[OF k] s using d1 d2 t n by (simp add: Let_def)
qed

lemma num_char_not_unit: "num_char c \<Longrightarrow> c \<noteq> CHR ''m'' \<and> c \<noteq> CHR ''s''"
  by (auto simp: num_char_def is_digit_def)

lemma re_unit_run:
  "re_unit s (\<lambda>g2 s7. Some (f g2)) = map_option f (unit_of s)"
  by (auto simp: re_unit_def unit_of_def re_lit_prefix prefix_def split: option.splits)

lemma re_unit_opt_run:
  "re_unit_opt s (\<lambda>g2 s7. Some (g1, g2)) = Some (g1, unit_of s)"
  unfolding re_unit_opt_def re_unit_run by (cases "unit_of s") auto

lemma subcomponent_re_head:
  "subcomponent_re s = metric_head ''subcomponent_load_time'' s (\<lambda>g1 s6. map_option (Pair g1) (unit_of s6))"
  unfolding subcomponent_re_def metric_head_def re_unit_run ..

lemma main_page_re_head:
  "main_page_re s = metric_head ''main_page_load_time'' s (\<lambda>g1 s6. Some (g1, unit_of s6))"
  unfolding main_page_re_def metric_head_def re_unit_opt_run ..

lemma sub_k_ok:
  "(\<forall>a c cs. num_char c \<longrightarrow> map_option (Pair a) (unit_of (c # cs)) = None)
     \<or> (\<forall>a r. map_option (Pair a) (unit_of r) \<noteq> (None :: (string \<times> string) option))"
  using num_char_not_unit by (auto simp: unit_of_def)

lemma main_k_ok:
  "(\<forall>a c cs. num_char c \<longrightarrow> Some (a, unit_of (c # cs)) = None)
     \<or> (\<forall>a r. Some (a, unit_of r) \<noteq> None)"
  by simp

lemma subcomponent_re_iff:
  "subcomponent_re s = Some (g1, g2) \<longleftrightarrow> metric_at ''subcomponent_load_time'' True s g1 (Some g2)"
  unfolding subcomponent_re_head metric_head_iff[OF sub_k_ok] metric_at_def
  by auto

lemma main_page_re_iff:
  "main_page_re s = Some (g1, g2) \<longleftrightarrow> metric_at ''main_page_load_time'' False s g1 g2"
  unfolding main_page_re_head metric_head_iff[OF main_k_ok] metric_at_def
  by auto

lemma re_search_first:
  assumes "m s = Some r" and "\<forall>i<length pre. m (drop i (pre @ s)) = None"
  shows "re_search m (pre @ s) = Some r"
  unfolding re_search_Some using assms by (intro exI[of _ "length pre"]) simp

lemma sub_none_iff:
  "subcomponent_re s = None \<longleftrightarrow> (\<forall>n v. \<not> metric_at ''subcomponent_load_time'' True s n v)"
proof -
  have "subcomponent_re s = None \<longleftrightarrow> (\<forall>n g. \<not> metric_at ''subcomponent_load_time'' True s n (Some g))"
    using subcomponent_re_iff[of s] by (cases "subcomponent_re s") auto
  moreover have "\<not> metric_at ''subcomponent_load_time'' True s n None" for n
    by (simp add: metric_at_def)
  ultimately show ?thesis by (metis option.exhaust)
qed

lemma main_none_iff:
  "main_page_re s = None \<longleftrightarrow> (\<forall>n v. \<not> metric_at ''main_page_load_time'' False s n v)"
  using main_page_re_iff[of s] by (cases "main_page_re s") auto

lemma metric_at_nonempty: "metric_at name b s n v \<Longrightarrow> s \<noteq> []"
  by (auto simp: metric_at_def metric_line_def)

lemma subcomponent_first_match:
  assumes "metric_at ''subcomponent_load_time'' True s num u"
    and "\<forall>i<length pre. \<forall>n v. \<not> metric_at ''subcomponent_load_time'' True (drop i (pre @ s)) n v"
  shows "\<exists>g. u = Some g \<and> re_search subcomponent_re (pre @ s) = Some (num, g)"
proof -
  obtain g where u: "u = Some g" using assms(1) by (auto simp: metric_at_def)
  have "subcomponent_re s = Some (num, g)" using assms(1) u subcomponent_re_iff by simp
  moreover have "\<forall>i<length pre. subcomponent_re (drop i (pre @ s)) = None"
    using assms(2) sub_none_iff by blast
  ultimately show ?thesis using u re_search_first by metis
qed

lemma main_page_first_match:
  assumes "metric_at ''main_page_load_time'' False s num u"
    and "\<forall>i<length pre. \<forall>n v. \<not> metric_at ''main_page_load_time'' False (drop i (pre @ s)) n v"
  shows "re_search main_page_re (pre @ s) = Some (num, u)"
proof -
  have "main_page_re s = Some (num, u)" using assms(1) main_page_re_iff by simp
  moreover have "\<forall>i<length pre. main_page_re (drop i (pre @ s)) = None"
    using assms(2) main_none_iff by blast
  ultimately show ?thesis using re_search_first by metis
qed

lemma main_page_load_time_first:
  assumes "metric_at ''main_page_load_time'' False s num u"
    and "\<forall>i<length pre. \<forall>n v. \<not> metric_at ''main_page_load_time'' False (drop i (pre @ s)) n v"
  shows "main_page_load_time (Some (pre @ s)) = Inr (to_seconds num u)"
proof -
  have "s \<noteq> []" using assms(1) metric_at_nonempty by blast
  then show ?thesis
    using main_page_first_match[OF assms]
    by (simp add: main_page_load_time_def to_seconds_def Let_def)
qed

lemma first_two: "length xs = 2 \<Longrightarrow> P 0 \<Longrightarrow> P 1 \<Longrightarrow> \<forall>i<length xs. P (i::nat)"
  by (auto simp: less_2_cases_iff)

lemma subcomponent_re_first_char: "c \<noteq> CHR ''s'' \<Longrightarrow> subcomponent_re (c # cs) = None"
  by (simp add: subcomponent_re_def)

lemma re_search_skip:
  "\<forall>c\<in>set xs. c \<noteq> CHR ''s'' \<Longrightarrow>
     re_search subcomponent_re (xs @ ys) = re_search subcomponent_re ys"
  by (induction xs) (simp_all add: subcomponent_re_first_char)

lemma class_not_s:
  "\<not> dot_or_space CHR ''s''" "\<not> is_space CHR ''s''" "\<not> num_char CHR ''s''"
  by (auto simp: dot_or_space_def is_space_def num_char_def is_digit_def)

lemma line_tail_not_s:
  assumes "list_all dot_or_space fill" "list_all is_space ws" "list_all num_char num"
  shows "\<forall>c\<in>set (fill @ '':'' @ ws @ ''avg='' @ num). c \<noteq> CHR ''s''"
  using assms class_not_s by (fastforce simp: list_all_iff)

lemma fl64_not_NaN: "fl64 q \<noteq> NaN"
  by (auto simp: fl64_def fl64_pos_def Let_def split: jsnum.splits)

lemma js_of_int_not_NaN: "js_of_int i \<noteq> NaN"
  by (simp add: js_of_int_def fl64_not_NaN)

lemma js_lt_iff: "M \<noteq> NaN \<Longrightarrow> js_lt L M \<longleftrightarrow> \<not> (isNaN L \<or> js_ge L M)"
  by (cases L; cases M) auto

lemma each_subcomponent_iff:
  "each_subcomponent runs maxTime = Inr () \<longleftrightarrow>
     (\<forall>r\<in>set runs. \<exists>L. subcomponent_load_time r = Inr L \<and> js_lt L (js_of_int maxTime))"
  by (induction runs) (auto simp: js_lt_iff[OF js_of_int_not_NaN] split: sum.splits)

section \<open>Claims about the threshold steps\<close>

text \<open>
  C1, as amended. Each consumer reads the first place of the captured text where its
  pattern matches: the metric name, dots or white space, a colon, white space, \<open>avg=\<close>
  and a number, followed by a unit \<open>ms\<close> or \<open>s\<close> that the subcomponent consumer requires
  and the main page consumer takes when it is there. The number is divided by 1000 when
  the unit is \<open>ms\<close> and taken as it is otherwise. A text with no such place makes the
  consumer throw an error whose message ends with the captured text. The two lines of the
  specification give 0.996 and 3.62 (the binary64 values of these literals).
\<close>

theorem load_time_extraction:
  "(metric_at ''subcomponent_load_time'' True s num u \<and> run_output r = pre @ s \<and>
      (\<forall>i<length pre. \<forall>n v. \<not> metric_at ''subcomponent_load_time'' True (drop i (pre @ s)) n v)
      \<longrightarrow> subcomponent_load_time r = Inr (to_seconds num u))
   \<and> ((\<forall>i\<le>length (run_output r). \<forall>n v.
          \<not> metric_at ''subcomponent_load_time'' True (drop i (run_output r)) n v)
      \<longrightarrow> (\<exists>msg. subcomponent_load_time r = Inl (Error msg) \<and> suffix (run_output r) msg))
   \<and> (metric_at ''main_page_load_time'' False s num u \<and>
      (\<forall>i<length pre. \<forall>n v. \<not> metric_at ''main_page_load_time'' False (drop i (pre @ s)) n v)
      \<longrightarrow> main_page_load_time (Some (pre @ s)) = Inr (to_seconds num u))
   \<and> ((\<forall>i\<le>length k6out. \<forall>n v. \<not> metric_at ''main_page_load_time'' False (drop i k6out) n v)
      \<longrightarrow> (\<exists>msg. main_page_load_time (Some k6out) = Inl (Error msg) \<and> suffix k6out msg))
   \<and> main_page_load_time (Some ''main_page_load_time.....: avg=996ms    min=996ms'')
        = Inr (fl64 (996 / 1000))
   \<and> main_page_load_time
        (Some ''main_page_load_time.....: avg=3.62s    min=3.62s    med=3.62s    max=3.62s'')
        = Inr (fl64 (362 / 100))"
proof (intro conjI impI)
  assume a: "metric_at ''subcomponent_load_time'' True s num u \<and> run_output r = pre @ s \<and>
      (\<forall>i<length pre. \<forall>n v. \<not> metric_at ''subcomponent_load_time'' True (drop i (pre @ s)) n v)"
  then obtain g where u: "u = Some g" by (auto simp: metric_at_def)
  have "subcomponent_re s = Some (num, g)" using a u subcomponent_re_iff by simp
  moreover have "\<forall>i<length pre. subcomponent_re (drop i (pre @ s)) = None"
    using a sub_none_iff by blast
  ultimately have "re_search subcomponent_re (run_output r) = Some (num, g)"
    using a re_search_first by metis
  then show "subcomponent_load_time r = Inr (to_seconds num u)"
    by (simp add: subcomponent_load_time_def to_seconds_def u Let_def)
next
  assume "\<forall>i\<le>length (run_output r). \<forall>n v.
          \<not> metric_at ''subcomponent_load_time'' True (drop i (run_output r)) n v"
  then have "re_search subcomponent_re (run_output r) = None"
    unfolding re_search_None sub_none_iff by blast
  then show "\<exists>msg. subcomponent_load_time r = Inl (Error msg) \<and> suffix (run_output r) msg"
    by (simp add: subcomponent_load_time_def suffix_def)
next
  assume a: "metric_at ''main_page_load_time'' False s num u \<and>
      (\<forall>i<length pre. \<forall>n v. \<not> metric_at ''main_page_load_time'' False (drop i (pre @ s)) n v)"
  have "main_page_re s = Some (num, u)" using a main_page_re_iff by simp
  moreover have "\<forall>i<length pre. main_page_re (drop i (pre @ s)) = None"
    using a main_none_iff by blast
  ultimately have "re_search main_page_re (pre @ s) = Some (num, u)"
    using re_search_first by metis
  moreover have "s \<noteq> []" using a metric_at_nonempty by blast
  ultimately show "main_page_load_time (Some (pre @ s)) = Inr (to_seconds num u)"
    by (simp add: main_page_load_time_def to_seconds_def Let_def)
next
  assume "\<forall>i\<le>length k6out. \<forall>n v. \<not> metric_at ''main_page_load_time'' False (drop i k6out) n v"
  then have "re_search main_page_re k6out = None"
    unfolding re_search_None main_none_iff by blast
  then show "\<exists>msg. main_page_load_time (Some k6out) = Inl (Error msg) \<and> suffix k6out msg"
    by (simp add: main_page_load_time_def suffix_def)
next
  show "main_page_load_time (Some ''main_page_load_time.....: avg=996ms    min=996ms'')
        = Inr (fl64 (996 / 1000))"
    by code_simp
next
  show "main_page_load_time
        (Some ''main_page_load_time.....: avg=3.62s    min=3.62s    med=3.62s    max=3.62s'')
        = Inr (fl64 (362 / 100))"
    by code_simp
qed

text \<open>Witness for C1: the theorem at four concrete captured texts.\<close>

theorem load_time_extraction_witness:
  "subcomponent_load_time
      \<lparr>run_selector = ''body'', run_expectedText = ''Google'',
       run_output = ''x '' @ ''subcomponent_load_time...: avg=318ms min=318ms''\<rparr>
     = Inr (fl64 (318 / 1000))
   \<and> (\<exists>msg. subcomponent_load_time
          \<lparr>run_selector = ''body'', run_expectedText = ''Google'', run_output = ''avg=318ms''\<rparr>
        = Inl (Error msg) \<and> suffix ''avg=318ms'' msg)
   \<and> main_page_load_time (Some (''k6'' @ ''main_page_load_time: avg=7.5 s'')) = Inr (Num (15 / 2))
   \<and> (\<exists>msg. main_page_load_time (Some ''main_page_load_time: 7s'') = Inl (Error msg)
          \<and> suffix ''main_page_load_time: 7s'' msg)"
proof -
  define r1 where "r1 = \<lparr>run_selector = ''body'', run_expectedText = ''Google'',
       run_output = ''x '' @ ''subcomponent_load_time...: avg=318ms min=318ms''\<rparr>"
  define r2 where "r2 = \<lparr>run_selector = ''body'', run_expectedText = ''Google'',
       run_output = ''avg=318ms''\<rparr>"
  have a1: "metric_at ''subcomponent_load_time'' True
              ''subcomponent_load_time...: avg=318ms min=318ms'' ''318'' (Some ''ms'')"
    unfolding subcomponent_re_iff[symmetric] by code_simp
  have b1: "\<forall>i<length ''x ''. \<forall>n v. \<not> metric_at ''subcomponent_load_time'' True
              (drop i (''x '' @ ''subcomponent_load_time...: avg=318ms min=318ms'')) n v"
    unfolding sub_none_iff[symmetric] by (rule first_two; code_simp)
  have c1: "to_seconds ''318'' (Some ''ms'') = fl64 (318 / 1000)" by code_simp
  have 1: "subcomponent_load_time r1 = Inr (fl64 (318 / 1000))"
    using load_time_extraction[where r = r1 and pre = "''x ''" and num = "''318''"
        and u = "Some ''ms''" and s = "''subcomponent_load_time...: avg=318ms min=318ms''",
        THEN conjunct1] a1 b1 c1
    by (simp add: r1_def)
  have b2: "\<forall>i\<le>length (run_output r2). \<forall>n v.
              \<not> metric_at ''subcomponent_load_time'' True (drop i (run_output r2)) n v"
    unfolding sub_none_iff[symmetric] re_search_None[symmetric] r2_def by code_simp
  have 2: "\<exists>msg. subcomponent_load_time r2 = Inl (Error msg) \<and> suffix ''avg=318ms'' msg"
    using load_time_extraction[where r = r2, THEN conjunct2, THEN conjunct1] b2
    by (simp add: r2_def)
  have a3: "metric_at ''main_page_load_time'' False ''main_page_load_time: avg=7.5 s'' ''7.5'' None"
    unfolding main_page_re_iff[symmetric] by code_simp
  have b3: "\<forall>i<length ''k6''. \<forall>n v. \<not> metric_at ''main_page_load_time'' False
              (drop i (''k6'' @ ''main_page_load_time: avg=7.5 s'')) n v"
    unfolding main_none_iff[symmetric] by (rule first_two; code_simp)
  have c3: "to_seconds ''7.5'' None = Num (15 / 2)" by code_simp
  have 3: "main_page_load_time (Some (''k6'' @ ''main_page_load_time: avg=7.5 s'')) = Inr (Num (15 / 2))"
    using load_time_extraction[where pre = "''k6''" and num = "''7.5''"
        and u = None and s = "''main_page_load_time: avg=7.5 s''",
        THEN conjunct2, THEN conjunct2, THEN conjunct1] a3 b3 c3
    by simp
  have b4: "\<forall>i\<le>length ''main_page_load_time: 7s''. \<forall>n v.
              \<not> metric_at ''main_page_load_time'' False (drop i ''main_page_load_time: 7s'') n v"
    unfolding main_none_iff[symmetric] re_search_None[symmetric] by code_simp
  have 4: "\<exists>msg. main_page_load_time (Some ''main_page_load_time: 7s'') = Inl (Error msg)
          \<and> suffix ''main_page_load_time: 7s'' msg"
    using load_time_extraction[where k6out = "''main_page_load_time: 7s''",
        THEN conjunct2, THEN conjunct2, THEN conjunct2, THEN conjunct1] b4
    by blast
  show ?thesis using 1 2 3 4 unfolding r1_def r2_def by blast
qed

text \<open>
  C1 as stated fails for the main page consumer: in the text below the first metric line
  that carries a unit reads 996ms, yet the consumer stops at the earlier line with no
  unit and returns 5 seconds, not 0.996.
\<close>

theorem load_time_extraction_counterexample:
  "main_page_load_time
     (Some (''main_page_load_time: avg=5 '' @
            ''main_page_load_time'' @ '':'' @ '' '' @ ''avg='' @ ''996'' @ ''ms'')) = Inr (Num 5)
   \<and> js_div (parseFloat ''996'') 1000 \<noteq> Num 5"
  by code_simp

text \<open>
  C2. A step passes exactly when the extracted load time is strictly below the limit: a
  load time equal to the limit and a load time that is \<open>NaN\<close> both make it throw. The
  line \<open>avg=5.000s\<close> against the limit 5 throws.
\<close>

theorem threshold_strict:
  "(then_main_page_load_time k6Output maxTime = Inr () \<longleftrightarrow>
      (\<exists>L. main_page_load_time k6Output = Inr L \<and> js_lt L (js_of_int maxTime)))
   \<and> (then_each_subcomponent_load_time runs maxTime = Inr () \<longleftrightarrow>
      runs \<noteq> [] \<and>
      (\<forall>r\<in>set runs. \<exists>L. subcomponent_load_time r = Inr L \<and> js_lt L (js_of_int maxTime)))
   \<and> (main_page_load_time k6Output = Inr L \<and> (L = js_of_int maxTime \<or> L = NaN)
      \<longrightarrow> then_main_page_load_time k6Output maxTime = Inl (NotLessThan L (js_of_int maxTime)))
   \<and> (subcomponent_load_time r = Inr L \<and> (L = js_of_int maxTime \<or> L = NaN)
      \<longrightarrow> then_each_subcomponent_load_time (r # rs) maxTime
            = Inl (NotLessThan L (js_of_int maxTime)))
   \<and> then_main_page_load_time (Some ''main_page_load_time.....: avg=5.000s'') 5
        = Inl (NotLessThan (Num 5) (Num 5))"
proof (intro conjI impI)
  show "then_main_page_load_time k6Output maxTime = Inr () \<longleftrightarrow>
      (\<exists>L. main_page_load_time k6Output = Inr L \<and> js_lt L (js_of_int maxTime))"
    by (auto simp: then_main_page_load_time_def js_lt_iff[OF js_of_int_not_NaN] split: sum.splits)
next
  show "then_each_subcomponent_load_time runs maxTime = Inr () \<longleftrightarrow>
      runs \<noteq> [] \<and>
      (\<forall>r\<in>set runs. \<exists>L. subcomponent_load_time r = Inr L \<and> js_lt L (js_of_int maxTime))"
    by (simp add: then_each_subcomponent_load_time_def each_subcomponent_iff)
next
  assume a: "main_page_load_time k6Output = Inr L \<and> (L = js_of_int maxTime \<or> L = NaN)"
  have "isNaN L \<or> js_ge L (js_of_int maxTime)"
    using a js_of_int_not_NaN[of maxTime] by (cases "js_of_int maxTime") auto
  then show "then_main_page_load_time k6Output maxTime = Inl (NotLessThan L (js_of_int maxTime))"
    using a by (simp add: then_main_page_load_time_def)
next
  assume a: "subcomponent_load_time r = Inr L \<and> (L = js_of_int maxTime \<or> L = NaN)"
  have "isNaN L \<or> js_ge L (js_of_int maxTime)"
    using a js_of_int_not_NaN[of maxTime] by (cases "js_of_int maxTime") auto
  then show "then_each_subcomponent_load_time (r # rs) maxTime
            = Inl (NotLessThan L (js_of_int maxTime))"
    using a by (simp add: then_each_subcomponent_load_time_def)
next
  show "then_main_page_load_time (Some ''main_page_load_time.....: avg=5.000s'') 5
        = Inl (NotLessThan (Num 5) (Num 5))"
    by code_simp
qed

text \<open>Witness for C2: a passing run, a run at the limit and a run whose number is a lone dot.\<close>

theorem threshold_strict_witness:
  "then_main_page_load_time (Some ''main_page_load_time.....: avg=4999ms'') 5 = Inr ()
   \<and> then_each_subcomponent_load_time
        [\<lparr>run_selector = ''body'', run_expectedText = ''Google'',
          run_output = ''subcomponent_load_time...: avg=6s''\<rparr>] 6
        = Inl (NotLessThan (Num 6) (Num 6))
   \<and> then_main_page_load_time (Some ''main_page_load_time.....: avg=.s'') 5
        = Inl (NotLessThan NaN (Num 5))"
proof -
  define r where "r = \<lparr>run_selector = ''body'', run_expectedText = ''Google'',
          run_output = ''subcomponent_load_time...: avg=6s''\<rparr>"
  define o1 where "o1 = Some ''main_page_load_time.....: avg=4999ms''"
  define o2 where "o2 = Some ''main_page_load_time.....: avg=.s''"
  have m5: "js_of_int 5 = Num 5" by code_simp
  have m6: "js_of_int 6 = Num 6" by code_simp
  have e1: "main_page_load_time o1 = Inr (fl64 (4999 / 1000))" unfolding o1_def by code_simp
  have lt: "js_lt (fl64 (4999 / 1000)) (js_of_int 5)" by code_simp
  have e2: "subcomponent_load_time r = Inr (Num 6)" unfolding r_def by code_simp
  have e3: "main_page_load_time o2 = Inr NaN" unfolding o2_def by code_simp
  have "then_main_page_load_time o1 5 = Inr ()"
    using threshold_strict[where k6Output = o1 and maxTime = 5, THEN conjunct1] e1 lt by simp
  moreover have "then_each_subcomponent_load_time [r] 6 = Inl (NotLessThan (Num 6) (Num 6))"
    using threshold_strict[where r = r and L = "Num 6" and maxTime = 6 and rs = "[]",
        THEN conjunct2, THEN conjunct2, THEN conjunct2, THEN conjunct1] e2 m6 by simp
  moreover have "then_main_page_load_time o2 5 = Inl (NotLessThan NaN (Num 5))"
    using threshold_strict[where k6Output = o2 and L = NaN and maxTime = 5,
        THEN conjunct2, THEN conjunct2, THEN conjunct1] e3 m5 by simp
  ultimately show ?thesis unfolding r_def o1_def o2_def by blast
qed

text \<open>
  C10. On a line \<open>main_page_load_time...: avg=<number>\<close> with no unit after the number
  the main page consumer returns the number itself, read as seconds. The subcomponent
  consumer throws its metric-not-found error on that line, and on the same line under its
  own metric name (the rest of the text holding no subcomponent metric line).
\<close>

theorem unit_optional_for_main_page_only:
  "list_all dot_or_space fill \<and> list_all is_space ws \<and> num \<noteq> [] \<and> list_all num_char num \<and>
   (rest = [] \<or> \<not> num_char (hd rest)) \<and> unit_of rest = None
   \<longrightarrow>
   main_page_load_time (Some (''main_page_load_time'' @ fill @ '':'' @ ws @ ''avg='' @ num @ rest))
     = Inr (parseFloat num)
   \<and> ((\<forall>i\<le>length rest. \<forall>n v. \<not> metric_at ''subcomponent_load_time'' True (drop i rest) n v) \<and>
       (run_output r = ''main_page_load_time'' @ fill @ '':'' @ ws @ ''avg='' @ num @ rest \<or>
        run_output r = ''subcomponent_load_time'' @ fill @ '':'' @ ws @ ''avg='' @ num @ rest)
      \<longrightarrow> subcomponent_load_time r
            = Inl (Error (''Could not find subcomponent_load_time metric for selector ''
                          @ run_selector r @ '' in k6 output. Output was:'' @ [CHR 0x0A]
                          @ run_output r)))"
proof (intro impI conjI)
  assume a: "list_all dot_or_space fill \<and> list_all is_space ws \<and> num \<noteq> [] \<and>
    list_all num_char num \<and> (rest = [] \<or> \<not> num_char (hd rest)) \<and> unit_of rest = None"
  let ?s = "''main_page_load_time'' @ fill @ '':'' @ ws @ ''avg='' @ num @ rest"
  have ml: "metric_line ''main_page_load_time'' ?s num rest"
    unfolding metric_line_def using a by blast
  then have "metric_at ''main_page_load_time'' False ?s num None"
    unfolding metric_at_def using a by blast
  then have "main_page_load_time (Some ([] @ ?s)) = Inr (to_seconds num None)"
    by (rule main_page_load_time_first) simp
  then show "main_page_load_time (Some ?s) = Inr (parseFloat num)"
    by (simp add: to_seconds_def)
next
  assume a: "list_all dot_or_space fill \<and> list_all is_space ws \<and> num \<noteq> [] \<and>
    list_all num_char num \<and> (rest = [] \<or> \<not> num_char (hd rest)) \<and> unit_of rest = None"
  assume b: "(\<forall>i\<le>length rest. \<forall>n v. \<not> metric_at ''subcomponent_load_time'' True (drop i rest) n v) \<and>
       (run_output r = ''main_page_load_time'' @ fill @ '':'' @ ws @ ''avg='' @ num @ rest \<or>
        run_output r = ''subcomponent_load_time'' @ fill @ '':'' @ ws @ ''avg='' @ num @ rest)"
  let ?mid = "fill @ '':'' @ ws @ ''avg='' @ num"
  have mid: "\<forall>c\<in>set ?mid. c \<noteq> CHR ''s''"
    using line_tail_not_s a by blast
  have rest: "re_search subcomponent_re rest = None"
    unfolding re_search_None sub_none_iff using b by blast
  have skip: "\<forall>c\<in>set xs. c \<noteq> CHR ''s'' \<Longrightarrow> re_search subcomponent_re (xs @ ?mid @ rest) = None"
    for xs
    using re_search_skip[of "xs @ ?mid" rest] mid rest by auto
  have m: "re_search subcomponent_re (''main_page_load_time'' @ ?mid @ rest) = None"
    by (rule skip) simp
  let ?t = "''subcomponent_load_time'' @ fill @ '':'' @ ws @ ''avg='' @ num @ rest"
  have "metric_line ''subcomponent_load_time'' ?t num rest"
    unfolding metric_line_def using a by blast
  then have "subcomponent_re ?t = map_option (Pair num) (unit_of rest)"
    unfolding subcomponent_re_head by (rule metric_head_line[OF sub_k_ok])
  then have s0: "subcomponent_re (CHR ''s'' # ''ubcomponent_load_time'' @ ?mid @ rest) = None"
    using a by simp
  have "re_search subcomponent_re (''ubcomponent_load_time'' @ ?mid @ rest) = None"
    by (rule skip) simp
  then have s: "re_search subcomponent_re (''subcomponent_load_time'' @ ?mid @ rest) = None"
    using s0 by simp
  have "re_search subcomponent_re (run_output r) = None"
    using b m s by auto
  then show "subcomponent_load_time r
            = Inl (Error (''Could not find subcomponent_load_time metric for selector ''
                          @ run_selector r @ '' in k6 output. Output was:'' @ [CHR 0x0A]
                          @ run_output r))"
    by (simp add: subcomponent_load_time_def)
qed

text \<open>Witness for C10: a line with the bare number 42.\<close>

theorem unit_optional_for_main_page_only_witness:
  "main_page_load_time (Some ''main_page_load_time.....: avg=42 min=42'') = Inr (Num 42)
   \<and> subcomponent_load_time
        \<lparr>run_selector = ''#app'', run_expectedText = ''Hi'',
         run_output = ''subcomponent_load_time.....: avg=42 min=42''\<rparr>
     = Inl (Error (''Could not find subcomponent_load_time metric for selector #app''
                   @ '' in k6 output. Output was:'' @ [CHR 0x0A]
                   @ ''subcomponent_load_time.....: avg=42 min=42''))"
proof -
  define r where "r = \<lparr>run_selector = ''#app'', run_expectedText = ''Hi'',
         run_output = ''subcomponent_load_time.....: avg=42 min=42''\<rparr>"
  have h: "list_all dot_or_space ''.....'' \<and> list_all is_space '' '' \<and> ''42'' \<noteq> [] \<and>
      list_all num_char ''42'' \<and> ('' min=42'' = [] \<or> \<not> num_char (hd '' min=42'')) \<and>
      unit_of '' min=42'' = None"
    by code_simp
  have n: "\<forall>i\<le>length '' min=42''. \<forall>n v.
      \<not> metric_at ''subcomponent_load_time'' True (drop i '' min=42'') n v"
    unfolding sub_none_iff[symmetric] re_search_None[symmetric] by code_simp
  have p: "parseFloat ''42'' = Num 42" by code_simp
  note t = unit_optional_for_main_page_only[where fill = "''.....''" and ws = "'' ''"
      and num = "''42''" and rest = "'' min=42''" and r = r, rule_format, OF h]
  have "main_page_load_time (Some ''main_page_load_time.....: avg=42 min=42'') = Inr (Num 42)"
    using t[THEN conjunct1] p by simp
  moreover have "subcomponent_load_time r
     = Inl (Error (''Could not find subcomponent_load_time metric for selector #app''
                   @ '' in k6 output. Output was:'' @ [CHR 0x0A]
                   @ ''subcomponent_load_time.....: avg=42 min=42''))"
    using t[THEN conjunct2] n by (simp add: r_def)
  ultimately show ?thesis unfolding r_def by blast
qed

section \<open>Claims about the configuration\<close>

lemma config_value:
  "m \<le> d \<Longrightarrow>
   js_max (Num m) (js_or v (Num d)) = default_or_floored m d v"
  by (cases v) (auto simp: js_max_def js_or_def default_or_floored_def)

lemma default_or_floored_ge:
  "m \<le> d \<Longrightarrow> js_ge (default_or_floored m d v) (Num m)"
  by (cases v) (auto simp: default_or_floored_def)

lemma urlPattern_prefix:
  assumes "urlPattern u"
  shows "prefix ''http://'' u \<or> prefix ''https://'' u"
proof -
  from assms obtain s1 where u: "u = ''http'' @ s1"
    and k: "re_opt_char CHR ''s'' s1 (\<lambda>s2. re_lit ''://'' s2 (\<lambda>s3.
              re_plus_cap (\<lambda>c. \<not> is_space c) s3 (\<lambda>g s4. re_end s4))) \<noteq> None"
    unfolding urlPattern_def re_lit_prefix[of "''http''"]
    by (auto simp: prefix_def split: if_splits)
  show ?thesis
  proof (cases s1)
    case Nil
    then show ?thesis using k by (simp add: re_opt_char_def)
  next
    case (Cons c cs)
    show ?thesis
    proof (cases "c = CHR ''s''")
      case True
      then have "prefix ''://'' cs"
        using k Cons by (auto simp: re_opt_char_def re_lit_prefix split: option.splits if_splits)
      then show ?thesis using u Cons True by (auto simp: prefix_def)
    next
      case False
      then have "prefix ''://'' s1"
        using k Cons by (auto simp: re_opt_char_def re_lit_prefix split: option.splits if_splits)
      then show ?thesis using u by (auto simp: prefix_def)
    qed
  qed
qed

lemma selectorPattern_iff: "selectorPattern s \<longleftrightarrow> s \<noteq> [] \<and> list_all selector_char s"
proof -
  have k: "(\<forall>a c cs. selector_char c \<longrightarrow> (\<lambda>g s1. re_end s1) a (c # cs) = None)
           \<or> (\<forall>a r. (\<lambda>g s1. re_end s1) a r \<noteq> None)"
    by (simp add: re_end_def)
  have "dropWhile selector_char s = [] \<longleftrightarrow> list_all selector_char s"
    by (simp add: list_all_iff dropWhile_eq_Nil_conv)
  moreover have "takeWhile selector_char s = [] \<Longrightarrow> list_all selector_char s \<Longrightarrow> s = []"
    by (cases s) auto
  ultimately show ?thesis
    unfolding selectorPattern_def re_plus_cap_run[OF k]
    by (auto simp: re_end_def)
qed

lemma dropWhile_keeps: "c \<in> set xs \<Longrightarrow> \<not> P c \<Longrightarrow> c \<in> set (dropWhile P xs)"
  by (induction xs) auto

lemma js_trim_keeps: "c \<in> set s \<Longrightarrow> \<not> is_space c \<Longrightarrow> c \<in> set (js_trim s)"
  unfolding js_trim_def by (simp add: dropWhile_keeps)

lemma bad_selector_trim:
  assumes "\<not> list_all selector_char sel"
  shows "js_trim sel \<noteq> [] \<and> \<not> selectorPattern (js_trim sel)"
proof -
  obtain c where c: "c \<in> set sel" "\<not> selector_char c"
    using assms by (auto simp: list_all_iff)
  then have "\<not> is_space c" by (auto simp: selector_char_def)
  then have "c \<in> set (js_trim sel)" using c js_trim_keeps by blast
  then show ?thesis using c by (auto simp: selectorPattern_iff list_all_iff)
qed

text \<open>
  C7, as amended. Whatever the environment holds and however its strings convert to
  numbers, no setting is rejected and each of the six values is decided by its setting
  alone: a setting that is absent, is not a number or is \<open>0\<close> gives the default (10000
  for the element timeout, 20000 for the DOM-content-loaded timeout, 5000 for the
  component and HTTP timeouts, 500 for the screenshot wait, 100 for the poll interval);
  any other number below the minimum gives the minimum (1000, 5000, 1000, 1000, 200 and
  50); a number at or above the minimum is kept. So every value is at least its minimum.
  The iteration function leaves the \<open>CONFIG\<close> object as it was built.
\<close>

theorem config_values_floored:
  "element (timeouts (CONFIG toNumber e))
     = default_or_floored 1000 10000 (env_num toNumber e ''ELEMENT_TIMEOUT'')
   \<and> domcontentloaded (timeouts (CONFIG toNumber e))
     = default_or_floored 5000 20000 (env_num toNumber e ''DOM_TIMEOUT'')
   \<and> component (timeouts (CONFIG toNumber e))
     = default_or_floored 1000 5000 (env_num toNumber e ''COMPONENT_TIMEOUT'')
   \<and> http (timeouts (CONFIG toNumber e))
     = default_or_floored 1000 5000 (env_num toNumber e ''HTTP_TIMEOUT'')
   \<and> screenshot (timeouts (CONFIG toNumber e))
     = default_or_floored 200 500 (env_num toNumber e ''SCREENSHOT_TIMEOUT'')
   \<and> pollInterval (CONFIG toNumber e)
     = default_or_floored 50 100 (env_num toNumber e ''POLL_INTERVAL'')
   \<and> js_ge (element (timeouts (CONFIG toNumber e))) (Num 1000)
   \<and> js_ge (domcontentloaded (timeouts (CONFIG toNumber e))) (Num 5000)
   \<and> js_ge (component (timeouts (CONFIG toNumber e))) (Num 1000)
   \<and> js_ge (http (timeouts (CONFIG toNumber e))) (Num 1000)
   \<and> js_ge (screenshot (timeouts (CONFIG toNumber e))) (Num 200)
   \<and> js_ge (pollInterval (CONFIG toNumber e)) (Num 50)
   \<and> module_CONFIG (snd (default_function later \<lparr>module_CONFIG = CONFIG toNumber e\<rparr>))
     = CONFIG toNumber e"
  by (simp add: CONFIG_def config_value default_or_floored_ge default_function_def)

text \<open>
  Witness for C7: an element timeout of 5 becomes 1000, a poll interval of 75 is kept and
  the component timeout, not set, is the default 5000.
\<close>

theorem config_values_floored_witness:
  "element (timeouts (CONFIG parseFloat [''ELEMENT_TIMEOUT'' \<mapsto> ''5'', ''POLL_INTERVAL'' \<mapsto> ''75'']))
     = Num 1000
   \<and> pollInterval (CONFIG parseFloat [''ELEMENT_TIMEOUT'' \<mapsto> ''5'', ''POLL_INTERVAL'' \<mapsto> ''75''])
     = Num 75
   \<and> component (timeouts (CONFIG parseFloat [''ELEMENT_TIMEOUT'' \<mapsto> ''5'', ''POLL_INTERVAL'' \<mapsto> ''75'']))
     = Num 5000"
proof -
  define e :: env where "e = [''ELEMENT_TIMEOUT'' \<mapsto> ''5'', ''POLL_INTERVAL'' \<mapsto> ''75'']"
  have p5: "parseFloat ''5'' = Num 5" and p75: "parseFloat ''75'' = Num 75" by code_simp+
  have v: "env_num parseFloat e ''ELEMENT_TIMEOUT'' = Num 5"
    "env_num parseFloat e ''POLL_INTERVAL'' = Num 75"
    "env_num parseFloat e ''COMPONENT_TIMEOUT'' = NaN"
    by (simp_all add: env_num_def e_def p5 p75)
  note t = config_values_floored[of parseFloat e]
  have "element (timeouts (CONFIG parseFloat e)) = Num 1000"
    using t[THEN conjunct1] by (simp add: v default_or_floored_def)
  moreover have "pollInterval (CONFIG parseFloat e) = Num 75"
    using t[THEN conjunct2, THEN conjunct2, THEN conjunct2, THEN conjunct2, THEN conjunct2,
        THEN conjunct1] by (simp add: v default_or_floored_def)
  moreover have "component (timeouts (CONFIG parseFloat e)) = Num 5000"
    using t[THEN conjunct2, THEN conjunct2, THEN conjunct1]
    by (simp add: v default_or_floored_def)
  ultimately show ?thesis unfolding e_def by simp
qed

text \<open>
  C7 as stated fails for a setting of \<open>0\<close> (the string \<open>0\<close> converts to the number 0 under
  unary plus as under \<open>parseFloat\<close>): the element timeout becomes the default 10000, where
  flooring 0 at the minimum would give 1000.
\<close>

theorem config_values_floored_counterexample:
  "parseFloat ''0'' = Num 0
   \<and> element (timeouts (CONFIG parseFloat [''ELEMENT_TIMEOUT'' \<mapsto> ''0''])) = Num 10000
   \<and> js_max (Num 1000) (Num 0) = Num 1000"
proof -
  have p0: "parseFloat ''0'' = Num 0" by code_simp
  show ?thesis
    by (simp add: CONFIG_def env_num_def js_or_def js_max_def p0)
qed

text \<open>
  C5. When \<open>TEST_URL\<close> is missing (not set, or blank), or is set without an
  \<open>http://\<close> or \<open>https://\<close> prefix, and \<open>SUBCOMPONENT_SELECTOR\<close> is set and holds a
  character outside the allowed set, the validation throws one error whose message lists
  both violations. The validation reads the configuration only, and the iteration
  function leaves with that error before any later stage has an effect: no HTTP request,
  no browser context.
\<close>

theorem validation_lists_every_violation:
  "((e ''TEST_URL'' = None \<or> e ''TEST_URL'' = Some u \<and> js_trim u = []) \<and>
    e ''SUBCOMPONENT_SELECTOR'' = Some sel \<and> \<not> list_all selector_char sel
    \<longrightarrow>
    validateRequiredEnvironmentVariables (CONFIG toNumber e)
      = Inl (K6Error (''Environment validation failed:'' @ [CHR 0x0A]
           @ ''  - TEST_URL is required and cannot be empty'' @ [CHR 0x0A]
           @ ''  - SUBCOMPONENT_SELECTOR must be a valid CSS selector, got: '' @ js_trim sel)))
   \<and> (e ''TEST_URL'' = Some u \<and> js_trim u \<noteq> [] \<and>
      \<not> prefix ''http://'' (js_trim u) \<and> \<not> prefix ''https://'' (js_trim u) \<and>
      e ''SUBCOMPONENT_SELECTOR'' = Some sel \<and> \<not> list_all selector_char sel
    \<longrightarrow>
    validateRequiredEnvironmentVariables (CONFIG toNumber e)
      = Inl (K6Error (''Environment validation failed:'' @ [CHR 0x0A]
           @ ''  - TEST_URL must be a valid URL with http or https protocol, got: '' @ js_trim u
           @ [CHR 0x0A]
           @ ''  - SUBCOMPONENT_SELECTOR must be a valid CSS selector, got: '' @ js_trim sel)))
   \<and> (validateRequiredEnvironmentVariables (CONFIG toNumber e) = Inl err
    \<longrightarrow> default_iteration (CONFIG toNumber e) later = (Inl err, []))"
proof (intro conjI impI)
  assume a: "(e ''TEST_URL'' = None \<or> e ''TEST_URL'' = Some u \<and> js_trim u = []) \<and>
    e ''SUBCOMPONENT_SELECTOR'' = Some sel \<and> \<not> list_all selector_char sel"
  have u: "url_errors (CONFIG toNumber e) = [''TEST_URL is required and cannot be empty'']"
    using a by (auto simp: url_errors_def CONFIG_def)
  have s: "selector_errors (CONFIG toNumber e)
             = [''SUBCOMPONENT_SELECTOR must be a valid CSS selector, got: '' @ js_trim sel]"
    using a bad_selector_trim[of sel] by (simp add: selector_errors_def CONFIG_def)
  show "validateRequiredEnvironmentVariables (CONFIG toNumber e)
      = Inl (K6Error (''Environment validation failed:'' @ [CHR 0x0A]
           @ ''  - TEST_URL is required and cannot be empty'' @ [CHR 0x0A]
           @ ''  - SUBCOMPONENT_SELECTOR must be a valid CSS selector, got: '' @ js_trim sel))"
    unfolding validateRequiredEnvironmentVariables_def u s by simp
next
  assume a: "e ''TEST_URL'' = Some u \<and> js_trim u \<noteq> [] \<and>
      \<not> prefix ''http://'' (js_trim u) \<and> \<not> prefix ''https://'' (js_trim u) \<and>
      e ''SUBCOMPONENT_SELECTOR'' = Some sel \<and> \<not> list_all selector_char sel"
  have "\<not> urlPattern (js_trim u)" using a urlPattern_prefix by blast
  then have u: "url_errors (CONFIG toNumber e)
      = [''TEST_URL must be a valid URL with http or https protocol, got: '' @ js_trim u]"
    using a by (simp add: url_errors_def CONFIG_def)
  have s: "selector_errors (CONFIG toNumber e)
             = [''SUBCOMPONENT_SELECTOR must be a valid CSS selector, got: '' @ js_trim sel]"
    using a bad_selector_trim[of sel] by (simp add: selector_errors_def CONFIG_def)
  show "validateRequiredEnvironmentVariables (CONFIG toNumber e)
      = Inl (K6Error (''Environment validation failed:'' @ [CHR 0x0A]
           @ ''  - TEST_URL must be a valid URL with http or https protocol, got: '' @ js_trim u
           @ [CHR 0x0A]
           @ ''  - SUBCOMPONENT_SELECTOR must be a valid CSS selector, got: '' @ js_trim sel))"
    unfolding validateRequiredEnvironmentVariables_def u s by simp
next
  assume "validateRequiredEnvironmentVariables (CONFIG toNumber e) = Inl err"
  then show "default_iteration (CONFIG toNumber e) later = (Inl err, [])"
    by (simp add: default_iteration_def)
qed

text \<open>Witness for C5: a blank or ftp URL with the selector \<open>a{b}\<close>.\<close>

theorem validation_lists_every_violation_witness:
  "validateRequiredEnvironmentVariables
     (CONFIG parseFloat [''TEST_URL'' \<mapsto> '' ftp://site '', ''SUBCOMPONENT_SELECTOR'' \<mapsto> ''a{b}''])
     = Inl (K6Error (''Environment validation failed:'' @ [CHR 0x0A]
           @ ''  - TEST_URL must be a valid URL with http or https protocol, got: ftp://site''
           @ [CHR 0x0A]
           @ ''  - SUBCOMPONENT_SELECTOR must be a valid CSS selector, got: a{b}''))
   \<and> validateRequiredEnvironmentVariables
     (CONFIG parseFloat [''SUBCOMPONENT_SELECTOR'' \<mapsto> ''a{b}''])
     = Inl (K6Error (''Environment validation failed:'' @ [CHR 0x0A]
           @ ''  - TEST_URL is required and cannot be empty'' @ [CHR 0x0A]
           @ ''  - SUBCOMPONENT_SELECTOR must be a valid CSS selector, got: a{b}''))
   \<and> default_iteration (CONFIG parseFloat [''SUBCOMPONENT_SELECTOR'' \<mapsto> ''a{b}''])
        (Inr (), [HttpGet, NewContext, NewPage, Measure, ClosePage, CloseContext])
     = (Inl (K6Error (''Environment validation failed:'' @ [CHR 0x0A]
           @ ''  - TEST_URL is required and cannot be empty'' @ [CHR 0x0A]
           @ ''  - SUBCOMPONENT_SELECTOR must be a valid CSS selector, got: a{b}'')), [])"
proof -
  define e1 :: env where "e1 = [''TEST_URL'' \<mapsto> '' ftp://site '', ''SUBCOMPONENT_SELECTOR'' \<mapsto> ''a{b}'']"
  define e2 :: env where "e2 = [''SUBCOMPONENT_SELECTOR'' \<mapsto> ''a{b}'']"
  have t1: "js_trim '' ftp://site '' = ''ftp://site''" and t2: "js_trim ''a{b}'' = ''a{b}''"
    by code_simp+
  have s: "\<not> list_all selector_char ''a{b}''" by code_simp
  have h1: "e1 ''TEST_URL'' = Some '' ftp://site '' \<and> js_trim '' ftp://site '' \<noteq> [] \<and>
      \<not> prefix ''http://'' (js_trim '' ftp://site '') \<and>
      \<not> prefix ''https://'' (js_trim '' ftp://site '') \<and>
      e1 ''SUBCOMPONENT_SELECTOR'' = Some ''a{b}'' \<and> \<not> list_all selector_char ''a{b}''"
    using s by (simp add: e1_def t1)
  have h2: "(e2 ''TEST_URL'' = None \<or> e2 ''TEST_URL'' = Some [] \<and> js_trim [] = []) \<and>
    e2 ''SUBCOMPONENT_SELECTOR'' = Some ''a{b}'' \<and> \<not> list_all selector_char ''a{b}''"
    using s by (simp add: e2_def)
  note A = validation_lists_every_violation[where e = e1 and u = "'' ftp://site ''"
      and sel = "''a{b}''" and toNumber = parseFloat, THEN conjunct2, THEN conjunct1, rule_format, OF h1]
  note B = validation_lists_every_violation[where e = e2 and u = "[]"
      and sel = "''a{b}''" and toNumber = parseFloat, THEN conjunct1, rule_format, OF h2]
  note C = validation_lists_every_violation[where e = e2 and toNumber = parseFloat,
      THEN conjunct2, THEN conjunct2, rule_format, OF B]
  show ?thesis
    using A B C[of "(Inr (), [HttpGet, NewContext, NewPage, Measure, ClosePage, CloseContext])"]
    unfolding e1_def e2_def t1 t2 by simp
qed

section \<open>Claims about the screenshot file name\<close>

lemma digit_char: "d < 10 \<Longrightarrow> is_digit (char_of (48 + d)) \<and> (of_char (char_of (48 + d)) :: int) = 48 + int d"
proof -
  assume d: "d < 10"
  have n: "(of_char (char_of (48 + d)) :: nat) = 48 + d" using d by simp
  have "(of_char (char_of (48 + d)) :: int) = int (of_char (char_of (48 + d)) :: nat)"
    by (simp only: of_nat_of_char)
  then show ?thesis using n d by (simp add: is_digit_def)
qed

lemma show_nat_small: "n < 10 \<Longrightarrow> show_nat n = [char_of (48 + n)]"
  by (subst show_nat.simps) simp

lemma show_nat_large:
  "\<not> n < 10 \<Longrightarrow> show_nat n = show_nat (n div 10) @ [char_of (48 + n mod 10)]"
  by (subst show_nat.simps) simp

lemma show_nat_digits: "list_all is_digit (show_nat n) \<and> show_nat n \<noteq> []"
proof (induction n rule: show_nat.induct)
  case (1 n)
  show ?case
  proof (cases "n < 10")
    case True
    then show ?thesis using digit_char[of n] by (simp add: show_nat_small)
  next
    case False
    have "n mod 10 < 10" by simp
    then have "is_digit (char_of (48 + n mod 10))" using digit_char by blast
    then show ?thesis using False 1 by (simp add: show_nat_large)
  qed
qed

lemma digits_val_snoc: "digits_val (xs @ [c]) = 10 * digits_val xs + (of_char c - 48)"
  by (simp add: digits_val_def)

lemma digits_val_show_nat: "digits_val (show_nat n) = int n"
proof (induction n rule: show_nat.induct)
  case (1 n)
  show ?case
  proof (cases "n < 10")
    case True
    then show ?thesis using digit_char[of n] by (simp add: show_nat_small digits_val_def)
  next
    case False
    have m: "n mod 10 < 10" by simp
    have "digits_val (show_nat n) = 10 * digits_val (show_nat (n div 10)) + int (n mod 10)"
      using False digit_char[OF m] by (simp add: show_nat_large digits_val_snoc)
    also have "\<dots> = 10 * int (n div 10) + int (n mod 10)" using 1 False by simp
    also have "\<dots> = int n" by (simp add: of_nat_div of_nat_mod)
    finally show ?thesis .
  qed
qed

lemma show_nat_inj:
  assumes "show_nat a = show_nat b"
  shows "a = b"
proof -
  have "int a = digits_val (show_nat a)" by (simp only: digits_val_show_nat)
  also have "\<dots> = digits_val (show_nat b)" by (simp only: assms)
  also have "\<dots> = int b" by (simp only: digits_val_show_nat)
  finally show ?thesis by simp
qed

lemma digits_suffix_unique:
  assumes "xs @ c # ds = xs' @ c' # ds'" "\<not> is_digit c" "\<not> is_digit c'"
    "list_all is_digit ds" "list_all is_digit ds'"
  shows "ds = ds' \<and> xs = xs'"
proof -
  have "rev ds @ c # rev xs = rev ds' @ c' # rev xs'"
    using arg_cong[OF assms(1), of rev] by simp
  moreover have "takeWhile is_digit (rev ds @ c # rev xs) = rev ds"
    by (rule takeWhile_run) (use assms in \<open>auto simp: list_all_iff\<close>)
  moreover have "takeWhile is_digit (rev ds' @ c' # rev xs') = rev ds'"
    by (rule takeWhile_run) (use assms in \<open>auto simp: list_all_iff\<close>)
  ultimately have "rev ds = rev ds'" by simp
  then have "ds = ds'" by simp
  then show ?thesis using assms(1) by simp
qed

lemma js_join_last_two:
  "a \<noteq> [] \<Longrightarrow> \<exists>Y. js_join sep (xs @ [a, b]) = Y @ a @ sep @ b"
proof (induction sep xs rule: js_join.induct)
  case (1 sep) then show ?case by simp
next
  case (2 sep x)
  then show ?case by (intro exI[of _ "x @ sep"]) simp
next
  case (3 sep x y ys)
  then obtain Y where "js_join sep ((y # ys) @ [a, b]) = Y @ a @ sep @ b" by blast
  then show ?case by (intro exI[of _ "x @ sep @ Y"]) simp
qed

lemma screenshotPath_shape:
  "\<exists>Y. screenshotPath isoTime e testType status expected vuId iterationId
       = Y @ ''VU'' @ show_nat vuId @ ''_Iter'' @ show_nat iterationId @ ''.png''"
proof -
  let ?front = "filter (\<lambda>p. p \<noteq> [])
       [timestamp isoTime, scenarioName e, scenarioTags e, testType, status, cleanExpectedText expected]"
  have "filenameParts isoTime e testType status expected vuId iterationId
          = ?front @ [''VU'' @ show_nat vuId, ''Iter'' @ show_nat iterationId]"
    by (simp add: filenameParts_def)
  moreover obtain Y where
    "js_join ''_'' (?front @ [''VU'' @ show_nat vuId, ''Iter'' @ show_nat iterationId])
       = Y @ (''VU'' @ show_nat vuId) @ ''_'' @ (''Iter'' @ show_nat iterationId)"
    using js_join_last_two[of "''VU'' @ show_nat vuId" "''_''" ?front] by auto
  ultimately show ?thesis
    unfolding screenshotPath_def by (intro exI[of _ "''screenshots/'' @ Y"]) simp
qed

lemma tail_ids:
  assumes eq: "Y @ p1 @ A @ p2 @ B @ p3 = Y' @ p1 @ A' @ p2 @ B' @ p3"
    and p1: "p1 \<noteq> []" "\<not> is_digit (last p1)" and p2: "p2 \<noteq> []" "\<not> is_digit (last p2)"
    and d: "list_all is_digit A" "list_all is_digit A'" "list_all is_digit B" "list_all is_digit B'"
  shows "A = A' \<and> B = B'"
proof -
  have s1: "p1 = butlast p1 @ [last p1]" and s2: "p2 = butlast p2 @ [last p2]"
    using p1(1) p2(1) by simp_all
  have "(Y @ p1 @ A @ p2 @ B) @ p3 = (Y' @ p1 @ A' @ p2 @ B') @ p3"
    using eq by (simp only: append_assoc)
  then have "Y @ p1 @ A @ p2 @ B = Y' @ p1 @ A' @ p2 @ B'"
    by (simp only: append_same_eq)
  then have "(Y @ p1 @ A @ butlast p2) @ last p2 # B = (Y' @ p1 @ A' @ butlast p2) @ last p2 # B'"
    by (subst (asm) (1 2) s2) (simp only: append_assoc append_Cons append_Nil)
  note u1 = digits_suffix_unique[OF this p2(2) p2(2) d(3) d(4)]
  then have "(Y @ p1 @ A) @ butlast p2 = (Y' @ p1 @ A') @ butlast p2"
    by (simp only: append_assoc)
  then have "Y @ p1 @ A = Y' @ p1 @ A'"
    by (simp only: append_same_eq)
  then have "(Y @ butlast p1) @ last p1 # A = (Y' @ butlast p1) @ last p1 # A'"
    by (subst (asm) (1 2) s1) (simp only: append_assoc append_Cons append_Nil)
  note u2 = digits_suffix_unique[OF this p1(2) p1(2) d(1) d(2)]
  show ?thesis using u1 u2 by blast
qed

lemma screenshotPath_ids:
  assumes "screenshotPath isoTime e testType status expected vuId iterationId
         = screenshotPath isoTime' e' testType' status' expected' vuId' iterationId'"
  shows "vuId = vuId' \<and> iterationId = iterationId'"
proof -
  obtain Y where Y: "screenshotPath isoTime e testType status expected vuId iterationId
       = Y @ ''VU'' @ show_nat vuId @ ''_Iter'' @ show_nat iterationId @ ''.png''"
    using screenshotPath_shape by blast
  obtain Y' where Y': "screenshotPath isoTime' e' testType' status' expected' vuId' iterationId'
       = Y' @ ''VU'' @ show_nat vuId' @ ''_Iter'' @ show_nat iterationId' @ ''.png''"
    using screenshotPath_shape by blast
  have dg: "list_all is_digit (show_nat n)" for n using show_nat_digits by blast
  have eq: "Y @ ''VU'' @ show_nat vuId @ ''_Iter'' @ show_nat iterationId @ ''.png''
      = Y' @ ''VU'' @ show_nat vuId' @ ''_Iter'' @ show_nat iterationId' @ ''.png''"
    using assms unfolding Y Y' .
  have "show_nat vuId = show_nat vuId' \<and> show_nat iterationId = show_nat iterationId'"
    by (rule tail_ids[OF eq]) (simp_all add: is_digit_def dg)
  then show ?thesis using show_nat_inj by blast
qed

lemma spaces_to_underscore_set:
  "set (spaces_to_underscore s) \<subseteq> insert CHR ''_'' {c \<in> set s. \<not> is_space c}"
proof (induction s rule: spaces_to_underscore.induct)
  case 1 then show ?case by simp
next
  case (2 c cs)
  show ?case
  proof (cases "is_space c")
    case True
    have "set (dropWhile is_space cs) \<subseteq> set cs" by (simp add: set_dropWhileD subsetI)
    then show ?thesis using True 2 by auto
  next
    case False then show ?thesis using 2 by auto
  qed
qed

lemma clean_name_chars: "list_all name_char (take n (spaces_to_underscore (strip_special s)))"
proof -
  have "set (take n (spaces_to_underscore (strip_special s)))
          \<subseteq> insert CHR ''_'' {c \<in> set (strip_special s). \<not> is_space c}"
    using spaces_to_underscore_set set_take_subset by fast
  then show ?thesis by (auto simp: list_all_iff name_char_def strip_special_def)
qed

lemma clean_tag_chars:
  "list_all (\<lambda>c. \<not> is_space c \<and> c \<noteq> CHR ''@'' \<and> c \<noteq> CHR '','')
     (take n (spaces_to_underscore (strip_at_comma s)))"
proof -
  have "set (take n (spaces_to_underscore (strip_at_comma s)))
          \<subseteq> insert CHR ''_'' {c \<in> set (strip_at_comma s). \<not> is_space c}"
    using spaces_to_underscore_set set_take_subset by fast
  moreover have "\<not> is_space CHR ''_''" by (simp add: is_space_def)
  ultimately show ?thesis by (auto simp: list_all_iff strip_at_comma_def)
qed

lemma digit_name_char: "is_digit c \<Longrightarrow> name_char c"
  by (simp add: name_char_def is_alnum_def)

text \<open>
  What holds of the names for every input. Two captures with different pairs of worker id
  and iteration id get different paths, whatever the time stamp and the other fields are.
  The scenario name and the expected-text fragment consist of letters, digits and
  underscores and have at most 30 and 15 characters; the tag list has at most 20
  characters and holds no \<open>@\<close>, comma or white space; the time stamp holds no colon or
  dot; the worker and iteration fields are \<open>VU\<close> and \<open>Iter\<close> followed by decimal digits.
\<close>

lemma screenshot_paths_distinct:
  "(vuId, iterationId) \<noteq> (vuId', iterationId') \<Longrightarrow>
   screenshotPath isoTime e testType status expected vuId iterationId
     \<noteq> screenshotPath isoTime' e' testType' status' expected' vuId' iterationId'"
  using screenshotPath_ids by fastforce

lemma screenshot_fields_clean:
  "list_all name_char (scenarioName e) \<and> length (scenarioName e) \<le> 30
   \<and> list_all name_char (cleanExpectedText expected) \<and> length (cleanExpectedText expected) \<le> 15
   \<and> list_all (\<lambda>c. \<not> is_space c \<and> c \<noteq> CHR ''@'' \<and> c \<noteq> CHR '','') (scenarioTags e)
   \<and> length (scenarioTags e) \<le> 20
   \<and> list_all (\<lambda>c. c \<noteq> CHR '':'' \<and> c \<noteq> CHR ''.'') (timestamp isoTime)
   \<and> list_all name_char (''VU'' @ show_nat vuId)
   \<and> list_all name_char (''Iter'' @ show_nat iterationId)"
proof (intro conjI)
  show "list_all name_char (scenarioName e)"
    unfolding scenarioName_def by (rule clean_name_chars)
  show "length (scenarioName e) \<le> 30" by (simp add: scenarioName_def)
  show "list_all name_char (cleanExpectedText expected)"
    using clean_name_chars by (simp add: cleanExpectedText_def split: option.splits)
  show "length (cleanExpectedText expected) \<le> 15"
    by (simp add: cleanExpectedText_def split: option.splits)
  show "list_all (\<lambda>c. \<not> is_space c \<and> c \<noteq> CHR ''@'' \<and> c \<noteq> CHR '','') (scenarioTags e)"
    unfolding scenarioTags_def by (rule clean_tag_chars)
  show "length (scenarioTags e) \<le> 20" by (simp add: scenarioTags_def)
  show "list_all (\<lambda>c. c \<noteq> CHR '':'' \<and> c \<noteq> CHR ''.'') (timestamp isoTime)"
    by (auto simp: timestamp_def list_all_iff Let_def dest!: in_set_takeD)
  have lit: "list_all name_char ''VU''" "list_all name_char ''Iter''"
    by (simp_all add: name_char_def is_alnum_def)
  have num: "list_all name_char (show_nat n)" for n
    using show_nat_digits[of n] digit_name_char by (simp add: list_all_iff)
  show "list_all name_char (''VU'' @ show_nat vuId)"
    using lit(1) num[of vuId] unfolding list_all_append by blast
  show "list_all name_char (''Iter'' @ show_nat iterationId)"
    using lit(2) num[of iterationId] unfolding list_all_append by blast
qed

text \<open>
  C8. The claim restricts every component of the name to characters that are safe in a
  file name. Under the comment \<open>Generate clean filename\<close> the scenario name and the
  expected text go through \<^verbatim>\<open>replace(/[^a-zA-Z0-9\s]/g, "")\<close>, the tag list through
  \<^verbatim>\<open>replace(/[@,]/g, "")\<close> only. With \<open>SCENARIO_TAGS\<close> set to \<open>@smoke/fast\<close> the tag
  component is \<open>smoke/fast\<close>: the slash stays, and the path names a file \<open>fast_...png\<close> in
  a directory \<open>screenshots/..._smoke\<close>. The same string as scenario name or as expected
  text comes out as \<open>smokefast\<close>.
\<close>

theorem screenshot_names:
  "screenshotPath ''2024-01-02T03:04:05.678Z''
      [''SCENARIO_NAME'' \<mapsto> ''Load'', ''SCENARIO_TAGS'' \<mapsto> ''@smoke/fast'']
      ''page'' ''pass'' None 1 0
    = ''screenshots/2024-01-02T03-04-05_Load_smoke/fast_page_pass_VU1_Iter0.png''
   \<and> scenarioTags [''SCENARIO_TAGS'' \<mapsto> ''@smoke/fast''] = ''smoke/fast''
   \<and> \<not> list_all name_char (scenarioTags [''SCENARIO_TAGS'' \<mapsto> ''@smoke/fast''])
   \<and> scenarioName [''SCENARIO_NAME'' \<mapsto> ''@smoke/fast''] = ''smokefast''
   \<and> cleanExpectedText (Some ''@smoke/fast'') = ''smokefast''"
  by code_simp
section \<open>Claims about the network correlator\<close>
















section \<open>Claims about highlighting\<close>

text \<open>
  C9. The claim has the composition of \<open>applyHighlighting\<close> and \<open>removeHighlighting\<close>
  leave the styles of the page as they were. The script saves and restores \<open>padding\<close>,
  \<open>border\<close> and \<open>borderRadius\<close> through the shorthand properties. On an element whose
  inline style declares \<open>padding-left: 3px\<close> alone, or the three \<open>border-top\<close> longhands
  alone, the shorthand reads as the empty string, so the empty string is what is saved;
  the highlight declares all the longhands of the shorthand, and assigning the saved empty
  string back removes them all. After the round trip the declarations \<open>padding-left\<close> and
  \<open>border-top\<close> that the page had are gone. The page below has the text \<open>Google\<close> in
  element 1, with \<open>padding-left: 3px\<close>, and \<open>Google Search\<close> in element 2, with
  \<open>border-top: 1px solid red\<close>.
\<close>

theorem highlight_roundtrip:
  "map (elem_style
      (elements
        \<lparr>elements = (\<lambda>i. \<lparr>elem_style =
                            (\<lambda>l. if i = 1 \<and> l = Padding LeftEdge then Some ''3px''
                                 else if i = 2 \<and> l = BorderWidth TopEdge then Some ''1px''
                                 else if i = 2 \<and> l = BorderStyle TopEdge then Some ''solid''
                                 else if i = 2 \<and> l = BorderColor TopEdge then Some ''red''
                                 else None),
                          highlighted = None\<rparr>),
         window_highlighted = None,
         querySelector = (\<lambda>s. if s = ''body''
                               then QueryElement [(''Google'', Some 1), (''Google Search'', Some 2)]
                               else QueryNull)\<rparr>
        1)) (map Padding edges)
     = [None, None, None, Some ''3px'']
   \<and> window_highlighted
       (applyHighlighting True
          \<lparr>elements = (\<lambda>i. \<lparr>elem_style =
                              (\<lambda>l. if i = 1 \<and> l = Padding LeftEdge then Some ''3px''
                                   else if i = 2 \<and> l = BorderWidth TopEdge then Some ''1px''
                                   else if i = 2 \<and> l = BorderStyle TopEdge then Some ''solid''
                                   else if i = 2 \<and> l = BorderColor TopEdge then Some ''red''
                                   else None),
                            highlighted = None\<rparr>),
           window_highlighted = None,
           querySelector = (\<lambda>s. if s = ''body''
                                 then QueryElement [(''Google'', Some 1), (''Google Search'', Some 2)]
                                 else QueryNull)\<rparr>
          ''body'' (Some ''Goo''))
     = Some [(1, \<lparr>backgroundColor = [], padding = [], border = [], borderRadius = [],
                  boxShadow = [], fontWeight = []\<rparr>),
             (2, \<lparr>backgroundColor = [], padding = [], border = [], borderRadius = [],
                  boxShadow = [], fontWeight = []\<rparr>)]
   \<and> map (elem_style
       (elements
         (applyHighlighting True
            \<lparr>elements = (\<lambda>i. \<lparr>elem_style =
                                (\<lambda>l. if i = 1 \<and> l = Padding LeftEdge then Some ''3px''
                                     else if i = 2 \<and> l = BorderWidth TopEdge then Some ''1px''
                                     else if i = 2 \<and> l = BorderStyle TopEdge then Some ''solid''
                                     else if i = 2 \<and> l = BorderColor TopEdge then Some ''red''
                                     else None),
                              highlighted = None\<rparr>),
             window_highlighted = None,
             querySelector = (\<lambda>s. if s = ''body''
                                   then QueryElement [(''Google'', Some 1), (''Google Search'', Some 2)]
                                   else QueryNull)\<rparr>
            ''body'' (Some ''Goo'')) 1)) (map Padding edges)
     = [Some ''4px'', Some ''8px'', Some ''4px'', Some ''8px'']
   \<and> map (elem_style
       (elements
         (removeHighlighting True
           (applyHighlighting True
              \<lparr>elements = (\<lambda>i. \<lparr>elem_style =
                                  (\<lambda>l. if i = 1 \<and> l = Padding LeftEdge then Some ''3px''
                                       else if i = 2 \<and> l = BorderWidth TopEdge then Some ''1px''
                                       else if i = 2 \<and> l = BorderStyle TopEdge then Some ''solid''
                                       else if i = 2 \<and> l = BorderColor TopEdge then Some ''red''
                                       else None),
                                highlighted = None\<rparr>),
               window_highlighted = None,
               querySelector = (\<lambda>s. if s = ''body''
                                     then QueryElement [(''Google'', Some 1), (''Google Search'', Some 2)]
                                     else QueryNull)\<rparr>
              ''body'' (Some ''Goo''))) 1)) (map Padding edges)
     = [None, None, None, None]
   \<and> map (elem_style
       (elements
         (removeHighlighting True
           (applyHighlighting True
              \<lparr>elements = (\<lambda>i. \<lparr>elem_style =
                                  (\<lambda>l. if i = 1 \<and> l = Padding LeftEdge then Some ''3px''
                                       else if i = 2 \<and> l = BorderWidth TopEdge then Some ''1px''
                                       else if i = 2 \<and> l = BorderStyle TopEdge then Some ''solid''
                                       else if i = 2 \<and> l = BorderColor TopEdge then Some ''red''
                                       else None),
                                highlighted = None\<rparr>),
               window_highlighted = None,
               querySelector = (\<lambda>s. if s = ''body''
                                     then QueryElement [(''Google'', Some 1), (''Google Search'', Some 2)]
                                     else QueryNull)\<rparr>
              ''body'' (Some ''Goo''))) 2))
       [BorderWidth TopEdge, BorderStyle TopEdge, BorderColor TopEdge]
     = [None, None, None]"
  by code_simp
section \<open>Claims about the readiness poller\<close>

subsection \<open>One pass\<close>

text \<open>
  What a pass over the checklist adds to the record of the calls: the calls it made
  follow the checklist, were made one after the other, and the pass leaves the loop
  exactly when every one of them met its condition.
\<close>

lemma paint_step_run:
  assumes "paint_step page sel s = (b, s')"
  shows "calls s' = calls s @ [(Probe PaintCompleted, clock s)]"
    and "clock s' = clock s + int (delay page (Probe PaintCompleted) (clock s))"
    and "b = met expected (observe page sel (clock s)) PaintCompleted"
    and "lastCheckTime s' = lastCheckTime s"
    and "pl_state s' = (pl_state s)\<lparr>paintWorkCompleted := b\<rparr>"
  using assms
  by (auto simp: paint_step_def checkPaintCompletion_def ask_def await_def
      split: probe.splits prod.splits)

lemma interactable_block_run:
  assumes "interactable_block page sel expected s = (b, s')" and "isVisible (pl_state s)"
  shows "calls s' = calls s @ added s s'"
    and "follows page sel expected (drop 3 (checklist expected)) (added s s')"
    and "timed page (clock s) (added s s') (clock s')"
    and "b = all_met page sel expected (added s s')"
    and "lastCheckTime s' = lastCheckTime s"
  using assms
  by (auto simp: interactable_block_def paint_step_def checkPaintCompletion_def ask_def await_def
      added_def checklist_def all_met_def Let_def
      split: probe.splits prod.splits option.splits if_splits)




subsection \<open>Runs of probe calls\<close>









subsection \<open>The record of the calls of the loop\<close>













subsection \<open>The load time the poller reports\<close>











end
